theory Spec2Isabelle
  imports Main "HOL-Library.Sublist"
begin

section \<open>git-credential-msal: a shallow embedding of \<^verbatim>\<open>main.py\<close>\<close>

text \<open>
  The helper reads \<^verbatim>\<open>key=value\<close> lines from standard input, decides whether it is
  asked for a bearer credential, resolves a (client id, tenant id) pair, asks the MSAL
  broker for an OIDC id token and prints the credential.  Every function of
  \<^verbatim>\<open>main.py\<close> is translated below under its own name.  Python strings are
  \<^typ>\<open>string\<close> (characters are the code points below 256), an exception is a value
  of \<^typ>\<open>'e + 'a\<close> (\<open>Inl\<close> the exception), and the libraries the program calls
  (keyring, the file system, git, MSAL, PyJWT, pickle) are explicit arguments.
\<close>

subsection \<open>Python values and exceptions\<close>

datatype py_error =
    ValueError
  | KeyError string
  | IndexError
  | AttributeError
  | TypeError
  | DecodeError
  | OverflowError
  | NoKeyringError
  | KeyringError
  | JSONDecodeError
  | UnicodeDecodeError
  | FileNotFoundError
  | PermissionError

text \<open>
  A value of the dictionary that \<^verbatim>\<open>read_stdin_pairs\<close> builds: a string for a scalar
  key, a list of strings for a key written with the \<^verbatim>\<open>[]\<close> suffix.
\<close>

datatype pair_value = Str string | Lst "string list"

type_synonym helper_pairs = "string \<rightharpoonup> pair_value"

text \<open>\<^verbatim>\<open>str.isspace\<close> on the code points below 256.\<close>

definition py_isspace :: "char \<Rightarrow> bool" where
  "py_isspace c =
     (let n = (of_char c :: nat)
      in (9 \<le> n \<and> n \<le> 13) \<or> (28 \<le> n \<and> n \<le> 32) \<or> n = 133 \<or> n = 160)"

text \<open>\<^verbatim>\<open>s.rstrip()\<close>: the trailing whitespace is removed.\<close>

definition py_rstrip :: "string \<Rightarrow> string" where
  "py_rstrip s = rev (dropWhile py_isspace (rev s))"

text \<open>
  \<^verbatim>\<open>s.split(sep="=", maxsplit=1)\<close>: one part when \<open>s\<close> has no \<^verbatim>\<open>=\<close>, otherwise
  the text before the first \<^verbatim>\<open>=\<close> and the text after it.
\<close>

definition py_split_eq1 :: "string \<Rightarrow> string list" where
  "py_split_eq1 s =
     (if CHR ''='' \<in> set s
      then [takeWhile (\<lambda>c. c \<noteq> CHR ''='') s, tl (dropWhile (\<lambda>c. c \<noteq> CHR ''='') s)]
      else [s])"

text \<open>\<^verbatim>\<open>s.endswith(w)\<close>.\<close>

definition py_endswith :: "string \<Rightarrow> string \<Rightarrow> bool" where
  "py_endswith s w = (length w \<le> length s \<and> drop (length s - length w) s = w)"

text \<open>\<^verbatim>\<open>w in s\<close> for two strings: \<open>w\<close> occurs in \<open>s\<close> as a substring.\<close>

fun py_str_contains :: "string \<Rightarrow> string \<Rightarrow> bool" where
  "py_str_contains w [] = (w = [])"
| "py_str_contains w (c # cs) = (prefix w (c # cs) \<or> py_str_contains w cs)"

text \<open>
  Iterating over a dictionary value: a list gives its elements, a string gives its
  characters, each as a string of length one.
\<close>

fun py_iter :: "pair_value \<Rightarrow> string list" where
  "py_iter (Lst vs) = vs"
| "py_iter (Str s) = map (\<lambda>c. [c]) s"

subsection \<open>\<^verbatim>\<open>read_stdin_pairs\<close>\<close>

text \<open>
  The body of the loop over the lines of standard input.  Unpacking
  \<^verbatim>\<open>[key, value] = ...\<close> raises \<^verbatim>\<open>ValueError\<close> when the line has no \<^verbatim>\<open>=\<close>, and
  \<^verbatim>\<open>kvs[key].append(value)\<close> raises \<^verbatim>\<open>AttributeError\<close> when the key holds a
  string from an earlier scalar line.
\<close>

definition read_stdin_pairs_line :: "helper_pairs \<Rightarrow> string \<Rightarrow> py_error + helper_pairs" where
  "read_stdin_pairs_line kvs line =
     (case py_split_eq1 (py_rstrip line) of
        [key, val] \<Rightarrow>
          (if py_endswith key ''[]''
           then
             (let key' = take (length key - 2) key;
                  kvs1 = (if kvs key' = None \<or> val = [] then kvs(key' \<mapsto> Lst []) else kvs)
              in (case kvs1 key' of
                    Some (Lst vs) \<Rightarrow> Inr (kvs1(key' \<mapsto> Lst (vs @ [val])))
                  | _ \<Rightarrow> Inl AttributeError))
           else Inr (kvs(key \<mapsto> Str val)))
      | _ \<Rightarrow> Inl ValueError)"

fun read_stdin_pairs_from :: "helper_pairs \<Rightarrow> string list \<Rightarrow> py_error + helper_pairs" where
  "read_stdin_pairs_from kvs [] = Inr kvs"
| "read_stdin_pairs_from kvs (line # rest) =
     (case read_stdin_pairs_line kvs line of
        Inl e \<Rightarrow> Inl e
      | Inr kvs' \<Rightarrow> read_stdin_pairs_from kvs' rest)"

definition read_stdin_pairs :: "string list \<Rightarrow> py_error + helper_pairs" where
  "read_stdin_pairs stdin = read_stdin_pairs_from Map.empty stdin"

subsection \<open>Regular expressions\<close>

text \<open>
  The three patterns of \<^verbatim>\<open>main.py\<close> are kept as patterns and run by a backtracking
  matcher with Python's priorities: \<open>rx_run r st\<close> lists, best first, the states
  in which a match of \<open>r\<close> started in \<open>st\<close> can end.  A state is the position, the
  rest of the input and the groups captured so far.
\<close>

datatype rx =
    Eps
  | Chr char
  | Dot
  | Space
  | Bol
  | Seq rx rx
  | Alt rx rx
  | Star rx
  | Lazy rx
  | Group nat rx

type_synonym rx_state = "nat \<times> string \<times> string option list"

definition rx_rest :: "rx_state \<Rightarrow> string" where
  "rx_rest st = fst (snd st)"

text \<open>
  Greedy and lazy repetition.  An iteration must consume input, so the number of
  iterations is at most the length of the rest, which is the fuel \<open>rx_run\<close> gives.
\<close>

fun star_run :: "(rx_state \<Rightarrow> rx_state list) \<Rightarrow> nat \<Rightarrow> rx_state \<Rightarrow> rx_state list" where
  "star_run f 0 st = [st]"
| "star_run f (Suc n) st =
     concat (map (star_run f n)
       (filter (\<lambda>st'. length (rx_rest st') < length (rx_rest st)) (f st))) @ [st]"

fun lazy_run :: "(rx_state \<Rightarrow> rx_state list) \<Rightarrow> nat \<Rightarrow> rx_state \<Rightarrow> rx_state list" where
  "lazy_run f 0 st = [st]"
| "lazy_run f (Suc n) st =
     st # concat (map (lazy_run f n)
       (filter (\<lambda>st'. length (rx_rest st') < length (rx_rest st)) (f st)))"

definition rx_step :: "(char \<Rightarrow> bool) \<Rightarrow> rx_state \<Rightarrow> rx_state list" where
  "rx_step P st =
     (case st of (p, s, g) \<Rightarrow>
        (case s of [] \<Rightarrow> [] | x # xs \<Rightarrow> if P x then [(Suc p, xs, g)] else []))"

definition rx_capture :: "nat \<Rightarrow> rx_state \<Rightarrow> rx_state \<Rightarrow> rx_state" where
  "rx_capture n st st' =
     (case st of (p, s, g) \<Rightarrow>
        (case st' of (p', s', g') \<Rightarrow> (p', s', g'[n := Some (take (p' - p) s)])))"

primrec rx_run :: "rx \<Rightarrow> rx_state \<Rightarrow> rx_state list" where
  "rx_run Eps = (\<lambda>st. [st])"
| "rx_run (Chr c) = rx_step (\<lambda>x. x = c)"
| "rx_run Dot = rx_step (\<lambda>x. x \<noteq> CHR 0x0A)"
| "rx_run Space = rx_step py_isspace"
| "rx_run Bol = (\<lambda>st. if fst st = 0 then [st] else [])"
| "rx_run (Seq a b) = (\<lambda>st. concat (map (rx_run b) (rx_run a st)))"
| "rx_run (Alt a b) = (\<lambda>st. rx_run a st @ rx_run b st)"
| "rx_run (Star a) = (\<lambda>st. star_run (rx_run a) (length (rx_rest st)) st)"
| "rx_run (Lazy a) = (\<lambda>st. lazy_run (rx_run a) (length (rx_rest st)) st)"
| "rx_run (Group n a) = (\<lambda>st. map (rx_capture n st) (rx_run a st))"

text \<open>A literal word, and \<^verbatim>\<open>a+\<close>.\<close>

fun rx_lit :: "string \<Rightarrow> rx" where
  "rx_lit [] = Eps"
| "rx_lit (c # cs) = Seq (Chr c) (rx_lit cs)"

definition rx_plus :: "rx \<Rightarrow> rx" where
  "rx_plus a = Seq a (Star a)"

text \<open>
  \<^verbatim>\<open>pattern.match(s)\<close>: the match is tried at the start of \<open>s\<close> only and need not
  reach its end; the result is \<^verbatim>\<open>None\<close> or the best match, given here by its
  \<^verbatim>\<open>groups()\<close> (\<open>None\<close> for a group that took no part).
\<close>

definition re_match :: "nat \<Rightarrow> rx \<Rightarrow> string \<Rightarrow> string option list option" where
  "re_match ngroups r s =
     (case rx_run r (0, s, replicate ngroups None) of
        [] \<Rightarrow> None
      | st # _ \<Rightarrow> Some (snd (snd st)))"

text \<open>\<^verbatim>\<open>^Bearer(?:\s*|\s+.+)\<close>\<close>

definition wwwauth_bearer_matcher :: rx where
  "wwwauth_bearer_matcher =
     Seq Bol (Seq (rx_lit ''Bearer'')
       (Alt (Star Space) (Seq (rx_plus Space) (rx_plus Dot))))"

text \<open>
  \<^verbatim>\<open>.*KEY(?:="(.*?)"|=(.*?),|=(.*))\<close>, for the two keys of the program.  The three
  alternatives after the key are the same in both patterns.
\<close>

definition wwwauth_param_value :: rx where
  "wwwauth_param_value =
     Alt (Seq (rx_lit ''=\"'') (Seq (Group 0 (Lazy Dot)) (rx_lit ''\"'')))
       (Alt (Seq (rx_lit ''='') (Seq (Group 1 (Lazy Dot)) (rx_lit '','')))
            (Seq (rx_lit ''='') (Group 2 (Star Dot))))"

definition wwwauth_param_matcher :: "string \<Rightarrow> rx" where
  "wwwauth_param_matcher k = Seq (Star Dot) (Seq (rx_lit k) wwwauth_param_value)"

definition wwwauth_client_id_matcher :: rx where
  "wwwauth_client_id_matcher = wwwauth_param_matcher ''msal-client-id''"

definition wwwauth_tenant_id_matcher :: rx where
  "wwwauth_tenant_id_matcher = wwwauth_param_matcher ''msal-tenant-id''"

subsection \<open>\<^verbatim>\<open>authtype_accepted\<close> and \<^verbatim>\<open>bearer_accepted\<close>\<close>

text \<open>
  \<^verbatim>\<open>"authtype" in helper_pairs["capability"]\<close> is membership when the value is a
  list and substring containment when it is a string.
\<close>

definition authtype_accepted :: "helper_pairs \<Rightarrow> bool" where
  "authtype_accepted helper_pairs =
     (case helper_pairs ''capability'' of
        None \<Rightarrow> False
      | Some (Lst vs) \<Rightarrow> ''authtype'' \<in> set vs
      | Some (Str s) \<Rightarrow> py_str_contains ''authtype'' s)"

definition is_bearer :: "string \<Rightarrow> bool" where
  "is_bearer auth = (re_match 0 wwwauth_bearer_matcher auth \<noteq> None)"

fun bearer_accepted_loop :: "string list \<Rightarrow> bool" where
  "bearer_accepted_loop [] = False"
| "bearer_accepted_loop (auth # rest) =
     (if is_bearer auth then True else bearer_accepted_loop rest)"

definition bearer_accepted :: "helper_pairs \<Rightarrow> bool" where
  "bearer_accepted helper_pairs =
     (case helper_pairs ''wwwauth'' of
        None \<Rightarrow> False
      | Some v \<Rightarrow> bearer_accepted_loop (py_iter v))"

subsection \<open>The world outside the process\<close>

text \<open>
  The secure store as the \<^verbatim>\<open>keyring\<close> package shows it: no backend at all (every call
  raises \<^verbatim>\<open>NoKeyringError\<close>), a working backend holding passwords by (service, user
  name), or a backend whose calls raise another exception (a locked keyring, say).
  The file system is a store of file contents by path, and \<open>unwritable\<close> tells what
  creating a directory or opening a file for writing at a path raises, if anything:
  \<^verbatim>\<open>PermissionError\<close>, or \<^verbatim>\<open>FileNotFoundError\<close> when the directory of the file does
  not exist, as for a cache name with a \<^verbatim>\<open>/\<close> in it.
\<close>

datatype keyring = NoKeyring | Keyring "string \<times> string \<rightharpoonup> string" | KeyringFailing

record world =
  keyring :: keyring
  files :: "string \<rightharpoonup> string"
  unwritable :: "string \<rightharpoonup> py_error"

text \<open>
  The libraries the cache functions call: the cache directory (\<^verbatim>\<open>cache_dir\<close>, from
  \<^verbatim>\<open>xdg\<close>), MSAL's token cache (\<open>'c\<close> is what a \<^verbatim>\<open>SerializableTokenCache\<close>
  holds: \<^verbatim>\<open>deserialize\<close> parses a blob or raises, \<^verbatim>\<open>serialize\<close> writes one), and
  \<^verbatim>\<open>pickle\<close> on the HTTP cache (\<open>'h\<close>; \<^verbatim>\<open>pickle.load\<close> returns an object or
  raises, \<open>None\<close> here; \<open>http_empty\<close> is \<^verbatim>\<open>{}\<close>).
\<close>

record ('c, 'h) libs =
  cache_dir :: string
  tc_empty :: 'c
  tc_deserialize :: "string \<Rightarrow> py_error + 'c"
  tc_serialize :: "'c \<Rightarrow> string"
  http_empty :: 'h
  pickle_load :: "string \<Rightarrow> 'h option"
  pickle_dump :: "'h \<Rightarrow> string"

record 'c token_cache =
  tc_content :: 'c
  has_state_changed :: bool

text \<open>\<^verbatim>\<open>os.path.join(a, b)\<close> of \<^verbatim>\<open>posixpath\<close>.\<close>

definition path_join :: "string \<Rightarrow> string \<Rightarrow> string" where
  "path_join a b =
     (if prefix ''/'' b then b
      else if a = [] \<or> py_endswith a ''/'' then a @ b
      else a @ ''/'' @ b)"

definition keyring_get_password :: "keyring \<Rightarrow> string \<Rightarrow> string \<Rightarrow> py_error + string option" where
  "keyring_get_password k service name =
     (case k of
        NoKeyring \<Rightarrow> Inl NoKeyringError
      | Keyring m \<Rightarrow> Inr (m (service, name))
      | KeyringFailing \<Rightarrow> Inl KeyringError)"

definition keyring_set_password :: "keyring \<Rightarrow> string \<Rightarrow> string \<Rightarrow> string \<Rightarrow> py_error + keyring" where
  "keyring_set_password k service name data =
     (case k of
        NoKeyring \<Rightarrow> Inl NoKeyringError
      | Keyring m \<Rightarrow> Inr (Keyring (m((service, name) \<mapsto> data)))
      | KeyringFailing \<Rightarrow> Inl KeyringError)"

text \<open>Python's truth value of \<^verbatim>\<open>data\<close>: \<^verbatim>\<open>None\<close> and the empty string are false.\<close>

fun py_truthy :: "string option \<Rightarrow> bool" where
  "py_truthy None = False"
| "py_truthy (Some s) = (s \<noteq> [])"

subsection \<open>The token cache: \<^verbatim>\<open>get_msal_cache\<close>, \<^verbatim>\<open>put_msal_cache\<close>\<close>

definition msal_cache_path :: "('c, 'h) libs \<Rightarrow> string \<Rightarrow> string" where
  "msal_cache_path L name = path_join (cache_dir L) (''msal_cache_'' @ name)"

text \<open>The bare \<^verbatim>\<open>except\<close> turns every failure to read the file into \<^verbatim>\<open>None\<close>.\<close>

definition get_msal_cache_insecure :: "('c, 'h) libs \<Rightarrow> world \<Rightarrow> string \<Rightarrow> string option" where
  "get_msal_cache_insecure L w name = files w (msal_cache_path L name)"

definition new_token_cache :: "('c, 'h) libs \<Rightarrow> 'c token_cache" where
  "new_token_cache L = \<lparr>tc_content = tc_empty L, has_state_changed = False\<rparr>"

definition deserialize :: "('c, 'h) libs \<Rightarrow> string \<Rightarrow> py_error + 'c token_cache" where
  "deserialize L data =
     (case tc_deserialize L data of
        Inl e \<Rightarrow> Inl e
      | Inr c \<Rightarrow> Inr \<lparr>tc_content = c, has_state_changed = False\<rparr>)"

definition get_msal_cache :: "('c, 'h) libs \<Rightarrow> world \<Rightarrow> string \<Rightarrow> py_error + 'c token_cache" where
  "get_msal_cache L w name =
     (case (case keyring_get_password (keyring w) ''system'' name of
              Inl NoKeyringError \<Rightarrow> Inr None
            | Inl e \<Rightarrow> Inl e
            | Inr d \<Rightarrow> Inr d) of
        Inl e \<Rightarrow> Inl e
      | Inr data0 \<Rightarrow>
          (let data = (if py_truthy data0 then data0 else get_msal_cache_insecure L w name)
           in (case data of
                 Some (c # cs) \<Rightarrow> deserialize L (c # cs)
               | _ \<Rightarrow> Inr (new_token_cache L))))"

text \<open>
  \<^verbatim>\<open>os.makedirs(dir, exist_ok=True)\<close> followed by opening \<open>path\<close> for writing and
  writing \<open>data\<close>: either call can raise, and then nothing is written.
\<close>

definition write_file :: "world \<Rightarrow> string \<Rightarrow> string \<Rightarrow> string \<Rightarrow> py_error + world" where
  "write_file w dir path data =
     (case unwritable w dir of
        Some e \<Rightarrow> Inl e
      | None \<Rightarrow>
          (case unwritable w path of
             Some e \<Rightarrow> Inl e
           | None \<Rightarrow> Inr (w\<lparr>files := (files w)(path \<mapsto> data)\<rparr>)))"

definition put_msal_cache_insecure ::
  "('c, 'h) libs \<Rightarrow> world \<Rightarrow> string \<Rightarrow> string \<Rightarrow> bool \<Rightarrow> py_error + world" where
  "put_msal_cache_insecure L w name data allow_insecure =
     (if allow_insecure
      then write_file w (cache_dir L) (msal_cache_path L name) data
      else Inr w)"

text \<open>
  \<^verbatim>\<open>cache.serialize()\<close> also resets the flag of the cache object; the program drops
  the object right after, so only the world is returned.
\<close>

definition put_msal_cache ::
  "('c, 'h) libs \<Rightarrow> world \<Rightarrow> string \<Rightarrow> 'c token_cache \<Rightarrow> bool \<Rightarrow> py_error + world" where
  "put_msal_cache L w name cache allow_insecure =
     (if has_state_changed cache
      then
        (let data = tc_serialize L (tc_content cache)
         in (case keyring_set_password (keyring w) ''system'' name data of
               Inr k \<Rightarrow> Inr (w\<lparr>keyring := k\<rparr>)
             | Inl NoKeyringError \<Rightarrow> put_msal_cache_insecure L w name data allow_insecure
             | Inl e \<Rightarrow> Inl e))
      else Inr w)"

subsection \<open>The HTTP cache: \<^verbatim>\<open>get_http_cache\<close>, \<^verbatim>\<open>put_http_cache\<close>\<close>

definition http_cache_path :: "('c, 'h) libs \<Rightarrow> string \<Rightarrow> string" where
  "http_cache_path L name = path_join (cache_dir L) (''http_cache_'' @ name)"

definition get_http_cache :: "('c, 'h) libs \<Rightarrow> world \<Rightarrow> string \<Rightarrow> 'h" where
  "get_http_cache L w name =
     (case files w (http_cache_path L name) of
        None \<Rightarrow> http_empty L
      | Some bytes \<Rightarrow>
          (case pickle_load L bytes of None \<Rightarrow> http_empty L | Some http_cache \<Rightarrow> http_cache))"

definition put_http_cache ::
  "('c, 'h) libs \<Rightarrow> world \<Rightarrow> string \<Rightarrow> 'h \<Rightarrow> py_error + world" where
  "put_http_cache L w name http_cache =
     write_file w (cache_dir L) (http_cache_path L name) (pickle_dump L http_cache)"

subsection \<open>The names \<^verbatim>\<open>msal_acquire_oidc_id_token\<close> derives from an identity\<close>

definition cache_name :: "string \<Rightarrow> string \<Rightarrow> string" where
  "cache_name tenant_id client_id = tenant_id @ ''_'' @ client_id"

definition keyring_name :: "string \<Rightarrow> string \<Rightarrow> string" where
  "keyring_name tenant_id client_id = ''git-credential-msal_'' @ cache_name tenant_id client_id"

subsection \<open>\<^verbatim>\<open>extract_entra_ids_from_wwwauth\<close>\<close>

text \<open>
  What the process is given besides its input: \<open>run_git argv\<close> is the return code and
  the standard output of the \<^verbatim>\<open>git\<close> child process, \<open>bytes_decode\<close> is
  \<^verbatim>\<open>bytes.decode()\<close> (it raises on bytes that are not UTF-8), \<open>repr_list\<close> is what
  formatting a list into an f-string prints, and \<open>jwt_decode\<close> is
  \<^verbatim>\<open>jwt.decode(token, options={"verify_signature": False})\<close>, the claims of the token
  or an exception; the program can hand it \<^verbatim>\<open>None\<close>.
\<close>

record sys =
  run_git :: "string list \<Rightarrow> int \<times> string"
  bytes_decode :: "string \<Rightarrow> py_error + string"
  repr_list :: "string list \<Rightarrow> string"
  jwt_decode :: "string option \<Rightarrow> py_error + (string \<rightharpoonup> int)"

text \<open>\<^verbatim>\<open>helper_pairs[key]\<close>, and a value formatted into an f-string.\<close>

definition py_getitem :: "helper_pairs \<Rightarrow> string \<Rightarrow> py_error + pair_value" where
  "py_getitem helper_pairs k =
     (case helper_pairs k of None \<Rightarrow> Inl (KeyError k) | Some v \<Rightarrow> Inr v)"

fun py_format :: "sys \<Rightarrow> pair_value \<Rightarrow> string" where
  "py_format S (Str s) = s"
| "py_format S (Lst vs) = repr_list S vs"

text \<open>
  \<^verbatim>\<open>for subgroup in m.groups(): if subgroup is not None: x = subgroup; break\<close>, from
  the value \<open>x\<close> had before.
\<close>

fun first_group :: "string option list \<Rightarrow> string option \<Rightarrow> string option" where
  "first_group [] x = x"
| "first_group (None # gs) x = first_group gs x"
| "first_group (Some v # gs) x = Some v"

text \<open>
  The loop over the challenges, with the two variables \<^verbatim>\<open>msal_client_id\<close> and
  \<^verbatim>\<open>msal_tenant_id\<close> as its state.
\<close>

fun wwwauth_loop :: "string option \<times> string option \<Rightarrow> string list \<Rightarrow> string option \<times> string option" where
  "wwwauth_loop ids [] = ids"
| "wwwauth_loop ids (auth # rest) =
     (if is_bearer auth
      then
        (case re_match 3 wwwauth_client_id_matcher auth of
           None \<Rightarrow> wwwauth_loop ids rest
         | Some client_groups \<Rightarrow>
             (case re_match 3 wwwauth_tenant_id_matcher auth of
                None \<Rightarrow> wwwauth_loop ids rest
              | Some tenant_groups \<Rightarrow>
                  (let msal_client_id = first_group client_groups (fst ids);
                       msal_tenant_id = first_group tenant_groups (snd ids)
                   in (case (msal_client_id, msal_tenant_id) of
                         (Some c, Some t) \<Rightarrow> (Some c, Some t)
                       | _ \<Rightarrow> wwwauth_loop (None, None) rest))))
      else wwwauth_loop ids rest)"

definition extract_entra_ids_from_wwwauth ::
  "helper_pairs \<Rightarrow> py_error + string option \<times> string option" where
  "extract_entra_ids_from_wwwauth helper_pairs =
     (case py_getitem helper_pairs ''protocol'' of
        Inl e \<Rightarrow> Inl e
      | Inr protocol \<Rightarrow>
          (case py_getitem helper_pairs ''host'' of
             Inl e \<Rightarrow> Inl e
           | Inr host \<Rightarrow>
               (case py_getitem helper_pairs ''wwwauth'' of
                  Inl e \<Rightarrow> Inl e
                | Inr auths \<Rightarrow> Inr (wwwauth_loop (None, None) (py_iter auths)))))"

text \<open>
  What lines 86 to 100 take from one challenge for one parameter: \<^verbatim>\<open>None\<close> when the
  pattern does not match, otherwise the first group of the match that is not
  \<^verbatim>\<open>None\<close>.  A challenge yields both parameters when it is bearer-shaped and both
  patterns give a value.
\<close>

definition challenge_param :: "rx \<Rightarrow> string \<Rightarrow> string option" where
  "challenge_param matcher auth =
     (case re_match 3 matcher auth of
        None \<Rightarrow> None
      | Some groups \<Rightarrow> first_group groups None)"

definition challenge_yields_both :: "string \<Rightarrow> bool" where
  "challenge_yields_both auth =
     (is_bearer auth
      \<and> challenge_param wwwauth_client_id_matcher auth \<noteq> None
      \<and> challenge_param wwwauth_tenant_id_matcher auth \<noteq> None)"

text \<open>
  The shape the specification gives a bearer challenge: the word \<^verbatim>\<open>Bearer\<close> alone, or
  \<^verbatim>\<open>Bearer\<close>, one or more whitespace characters and any further text.  This follows
  the specification's words, not the program; it serves to say where the two differ.
\<close>

definition spec_bearer_shape :: "string \<Rightarrow> bool" where
  "spec_bearer_shape auth =
     (prefix ''Bearer'' auth
      \<and> (case drop 6 auth of [] \<Rightarrow> True | c # cs \<Rightarrow> py_isspace c))"

subsection \<open>\<^verbatim>\<open>git_config_get_urlmatch\<close>, \<^verbatim>\<open>extract_entra_ids_from_git_config\<close>\<close>

text \<open>\<^verbatim>\<open>bytes.rstrip()\<close> removes the ASCII whitespace only.\<close>

definition py_bytes_isspace :: "char \<Rightarrow> bool" where
  "py_bytes_isspace c = (let n = (of_char c :: nat) in (9 \<le> n \<and> n \<le> 13) \<or> n = 32)"

definition py_bytes_rstrip :: "string \<Rightarrow> string" where
  "py_bytes_rstrip s = rev (dropWhile py_bytes_isspace (rev s))"

definition git_config_get_urlmatch :: "sys \<Rightarrow> string \<Rightarrow> string \<Rightarrow> py_error + string option" where
  "git_config_get_urlmatch S url k =
     (case run_git S [''git'', ''config'', ''--get-urlmatch'', k, url] of
        (returncode, out) \<Rightarrow>
          (if returncode \<noteq> 0 then Inr None
           else
             (case bytes_decode S (py_bytes_rstrip out) of
                Inl e \<Rightarrow> Inl e
              | Inr config_value \<Rightarrow> Inr (if config_value = [] then None else Some config_value))))"

definition extract_entra_ids_from_git_config ::
  "sys \<Rightarrow> helper_pairs \<Rightarrow> py_error + string option \<times> string option" where
  "extract_entra_ids_from_git_config S helper_pairs =
     (case py_getitem helper_pairs ''protocol'' of
        Inl e \<Rightarrow> Inl e
      | Inr protocol \<Rightarrow>
          (case py_getitem helper_pairs ''host'' of
             Inl e \<Rightarrow> Inl e
           | Inr host \<Rightarrow>
               (let url = py_format S protocol @ ''://'' @ py_format S host
                in (case git_config_get_urlmatch S url ''credential.msalClientId'' of
                      Inl e \<Rightarrow> Inl e
                    | Inr msal_client_id \<Rightarrow>
                        (case git_config_get_urlmatch S url ''credential.msalTenantId'' of
                           Inl e \<Rightarrow> Inl e
                         | Inr msal_tenant_id \<Rightarrow> Inr (msal_client_id, msal_tenant_id))))))"

text \<open>
  Lines 309 to 314 of \<^verbatim>\<open>main\<close>: the pair from the configuration, and the pair from
  the challenges in its place when a half is missing.
\<close>

definition resolve_entra_ids ::
  "sys \<Rightarrow> helper_pairs \<Rightarrow> py_error + string option \<times> string option" where
  "resolve_entra_ids S helper_pairs =
     (case extract_entra_ids_from_git_config S helper_pairs of
        Inl e \<Rightarrow> Inl e
      | Inr (client_id, tenant_id) \<Rightarrow>
          (if client_id = None \<or> tenant_id = None
           then extract_entra_ids_from_wwwauth helper_pairs
           else Inr (client_id, tenant_id)))"

subsection \<open>\<^verbatim>\<open>msal_acquire_oidc_id_token\<close>\<close>

text \<open>
  MSAL's \<^verbatim>\<open>PublicClientApplication\<close>, the identity broker.  It works on the two
  cache objects it was given and changes them in place, so each call takes them and
  returns them.  A result and an account are dictionaries of strings.
\<close>

type_synonym py_dict = "string \<rightharpoonup> string"

record ('c, 'h) broker =
  get_accounts :: "'c token_cache \<Rightarrow> py_dict list"
  acquire_token_silent ::
    "py_dict \<Rightarrow> 'c token_cache \<times> 'h \<Rightarrow> py_dict option \<times> 'c token_cache \<times> 'h"
  initiate_device_flow :: "'c token_cache \<times> 'h \<Rightarrow> py_dict \<times> 'c token_cache \<times> 'h"
  acquire_token_by_device_flow ::
    "py_dict \<Rightarrow> 'c token_cache \<times> 'h \<Rightarrow> py_dict \<times> 'c token_cache \<times> 'h"
  acquire_token_interactive :: "'c token_cache \<times> 'h \<Rightarrow> py_dict \<times> 'c token_cache \<times> 'h"
  find_id_tokens :: "'c token_cache \<Rightarrow> string \<Rightarrow> py_dict list"

definition dict_getitem :: "py_dict \<Rightarrow> string \<Rightarrow> py_error + string" where
  "dict_getitem d k = (case d k of None \<Rightarrow> Inl (KeyError k) | Some v \<Rightarrow> Inr v)"

text \<open>
  Lines 234 to 252: the silent acquisition for the first cached account, then the
  device flow or the interactive flow.  The result is the broker's answer, the two
  caches and the lines printed to standard error.
\<close>

definition acquire_tokens ::
  "('c, 'h) broker \<Rightarrow> bool \<Rightarrow> 'c token_cache \<times> 'h \<Rightarrow>
   (py_error + py_dict) \<times> ('c token_cache \<times> 'h) \<times> string list" where
  "acquire_tokens app device_code caches =
     (case (case get_accounts app (fst caches) of
              [] \<Rightarrow> (None, caches)
            | account # _ \<Rightarrow> acquire_token_silent app account caches) of
        (Some r, caches1) \<Rightarrow> (Inr r, caches1, [])
      | (None, caches1) \<Rightarrow>
          (if device_code
           then
             (case initiate_device_flow app caches1 of
                (device_code_flow, caches2) \<Rightarrow>
                  (case dict_getitem device_code_flow ''message'' of
                     Inl e \<Rightarrow> (Inl e, caches2, [])
                   | Inr message \<Rightarrow>
                       (case acquire_token_by_device_flow app device_code_flow caches2 of
                          (r, caches3) \<Rightarrow> (Inr r, caches3, [message]))))
           else
             (case acquire_token_interactive app caches1 of
                (r, caches2) \<Rightarrow> (Inr r, caches2, []))))"

text \<open>
  Lines 254 to 270: an error result is printed and gives \<^verbatim>\<open>None\<close>; otherwise the
  secret of the first id token of the first account is the token.
\<close>

definition read_tokens_result ::
  "('c, 'h) broker \<Rightarrow> 'c token_cache \<Rightarrow> py_dict \<Rightarrow> (py_error + string option) \<times> string list" where
  "read_tokens_result app cache r =
     (if r ''error'' \<noteq> None
      then
        (case dict_getitem r ''error'' of
           Inl e \<Rightarrow> (Inl e, [])
         | Inr code \<Rightarrow>
             (case dict_getitem r ''error_description'' of
                Inl e \<Rightarrow> (Inl e, [''Error: '' @ code])
              | Inr description \<Rightarrow>
                  (Inr None, [''Error: '' @ code, ''Description: '' @ description])))
      else
        (case get_accounts app cache of
           [] \<Rightarrow> (Inl IndexError, [])
         | account # _ \<Rightarrow>
             (case dict_getitem account ''home_account_id'' of
                Inl e \<Rightarrow> (Inl e, [])
              | Inr home \<Rightarrow>
                  (case find_id_tokens app cache home of
                     [] \<Rightarrow> (Inl IndexError, [])
                   | entry # _ \<Rightarrow>
                       (case dict_getitem entry ''secret'' of
                          Inl e \<Rightarrow> (Inl e, [])
                        | Inr secret \<Rightarrow> (Inr (Some secret), []))))))"

text \<open>
  The whole function: the value returned or the exception raised, the world after the
  call and the lines printed to standard error.  \<open>msal_app client_id authority\<close> is
  the broker \<^verbatim>\<open>PublicClientApplication\<close> builds.
\<close>

definition msal_acquire_oidc_id_token ::
  "('c, 'h) libs \<Rightarrow> (string \<Rightarrow> string \<Rightarrow> ('c, 'h) broker) \<Rightarrow> world \<Rightarrow>
   string \<Rightarrow> string \<Rightarrow> bool \<Rightarrow> bool \<Rightarrow> (py_error + string option) \<times> world \<times> string list" where
  "msal_acquire_oidc_id_token L msal_app w client_id tenant_id device_code allow_insecure =
     (case get_msal_cache L w (keyring_name tenant_id client_id) of
        Inl e \<Rightarrow> (Inl e, w, [])
      | Inr cache \<Rightarrow>
          (let http_cache = get_http_cache L w (cache_name tenant_id client_id);
               app = msal_app client_id (''https://login.microsoftonline.com/'' @ tenant_id)
           in (case acquire_tokens app device_code (cache, http_cache) of
                 (Inl e, caches, err) \<Rightarrow> (Inl e, w, err)
               | (Inr r, caches, err) \<Rightarrow>
                   (case read_tokens_result app (fst caches) r of
                      (Inl e, err2) \<Rightarrow> (Inl e, w, err @ err2)
                    | (Inr id_token, err2) \<Rightarrow>
                        (case put_msal_cache L w (keyring_name tenant_id client_id)
                                (fst caches) allow_insecure of
                           Inl e \<Rightarrow> (Inl e, w, err @ err2)
                         | Inr w1 \<Rightarrow>
                             (case put_http_cache L w1 (keyring_name tenant_id client_id)
                                     (snd caches) of
                                Inl e \<Rightarrow> (Inl e, w1, err @ err2)
                              | Inr w2 \<Rightarrow> (Inr id_token, w2, err @ err2)))))))"

subsection \<open>\<^verbatim>\<open>jwt_expired_value\<close>\<close>

text \<open>
  The \<^verbatim>\<open>exp\<close> claim, through a \<^verbatim>\<open>datetime\<close>: adding the seconds to the epoch raises
  \<^verbatim>\<open>OverflowError\<close> outside the years 1 to 9999, and \<^verbatim>\<open>timestamp()\<close> gives the
  seconds back.  (\<^verbatim>\<open>fromisoformat\<close> reads the trailing \<^verbatim>\<open>Z\<close> from Python 3.11 on.)
\<close>

definition jwt_expired_value :: "sys \<Rightarrow> string option \<Rightarrow> py_error + int" where
  "jwt_expired_value S token =
     (case jwt_decode S token of
        Inl e \<Rightarrow> Inl e
      | Inr token_decoded \<Rightarrow>
          (case token_decoded ''exp'' of
             None \<Rightarrow> Inl (KeyError ''exp'')
           | Some token_exp \<Rightarrow>
               (if - 62135596800 \<le> token_exp \<and> token_exp \<le> 253402300799
                then Inr token_exp
                else Inl OverflowError)))"

subsection \<open>\<^verbatim>\<open>main\<close>\<close>

text \<open>\<^verbatim>\<open>str\<close> of an integer, and of a value that may be \<^verbatim>\<open>None\<close>.\<close>

fun py_str_nat :: "nat \<Rightarrow> string" where
  "py_str_nat n =
     (if n < 10 then [char_of (48 + n)]
      else py_str_nat (n div 10) @ [char_of (48 + n mod 10)])"

definition py_str_int :: "int \<Rightarrow> string" where
  "py_str_int i = (if i < 0 then ''-'' @ py_str_nat (nat (- i)) else py_str_nat (nat i))"

fun py_str_opt :: "string option \<Rightarrow> string" where
  "py_str_opt None = ''None''"
| "py_str_opt (Some s) = s"

text \<open>
  The arguments \<^verbatim>\<open>argparse\<close> hands over, and what a run of the process shows: how it
  ended (\<^verbatim>\<open>exit(n)\<close> or the end of \<^verbatim>\<open>main\<close>, status 0; an uncaught exception,
  which Python reports with a traceback and status 1), the lines on standard output,
  the lines the program itself prints on standard error (the traceback is not among
  them), and the world it leaves.
\<close>

record args =
  command :: string
  device_code :: bool
  insecure :: bool

datatype ending = Exit nat | Uncaught py_error

record run =
  ending :: ending
  out :: "string list"
  err :: "string list"
  after :: world

definition main ::
  "sys \<Rightarrow> ('c, 'h) libs \<Rightarrow> (string \<Rightarrow> string \<Rightarrow> ('c, 'h) broker) \<Rightarrow>
   args \<Rightarrow> string list \<Rightarrow> world \<Rightarrow> run" where
  "main S L msal_app a stdin w =
     (if command a \<noteq> ''get''
      then \<lparr>ending = Exit 0, out = [], err = [], after = w\<rparr>
      else
        (case read_stdin_pairs stdin of
           Inl e \<Rightarrow> \<lparr>ending = Uncaught e, out = [], err = [], after = w\<rparr>
         | Inr helper_pairs \<Rightarrow>
             (if \<not> authtype_accepted helper_pairs
              then \<lparr>ending = Exit 0, out = [], err = [], after = w\<rparr>
              else if \<not> bearer_accepted helper_pairs
              then \<lparr>ending = Exit 0, out = [], err = [], after = w\<rparr>
              else
                (case resolve_entra_ids S helper_pairs of
                   Inl e \<Rightarrow> \<lparr>ending = Uncaught e, out = [], err = [], after = w\<rparr>
                 | Inr (client_id, tenant_id) \<Rightarrow>
                     (let missing =
                        (if client_id = None
                         then [''Missing Microsoft Entra client id needed by git-credential-msal'']
                         else []) @
                        (if tenant_id = None
                         then [''Missing Microsoft Entra tenant id needed by git-credential-msal'']
                         else [])
                      in (case (client_id, tenant_id) of
                            (Some c, Some t) \<Rightarrow>
                              (case msal_acquire_oidc_id_token L msal_app w c t
                                      (device_code a) (insecure a) of
                                 (Inl e, w1, lines) \<Rightarrow>
                                   \<lparr>ending = Uncaught e, out = [], err = lines, after = w1\<rparr>
                               | (Inr id_token, w1, lines) \<Rightarrow>
                                   (case jwt_expired_value S id_token of
                                      Inl e \<Rightarrow>
                                        \<lparr>ending = Uncaught e, out = [], err = lines, after = w1\<rparr>
                                    | Inr expiry \<Rightarrow>
                                        \<lparr>ending = Exit 0,
                                         out = [''capability[]=authtype'',
                                                ''authtype=Bearer'',
                                                ''credential='' @ py_str_opt id_token,
                                                ''password_expiry_utc='' @ py_str_int expiry],
                                         err = lines, after = w1\<rparr>))
                          | _ \<Rightarrow>
                              \<lparr>ending = Exit 0, out = [], err = missing, after = w\<rparr>))))))"

subsection \<open>Example values\<close>

text \<open>
  Libraries for the examples: token-cache blobs and HTTP caches are strings that
  serialise to themselves, and \<^verbatim>\<open>{}\<close> is the empty one.
\<close>

definition example_libs :: "(string, string) libs" where
  "example_libs =
     \<lparr>cache_dir = ''/c'', tc_empty = ''{}'', tc_deserialize = Inr, tc_serialize = (\<lambda>c. c),
      http_empty = ''{}'', pickle_load = Some, pickle_dump = (\<lambda>h. h)\<rparr>"

text \<open>
  A world whose secure store works and holds nothing, and whose cache directory holds
  a plaintext token cache for the name \<^verbatim>\<open>n\<close>.
\<close>

definition insecure_only_world :: world where
  "insecure_only_world =
     \<lparr>keyring = Keyring Map.empty,
      files = [msal_cache_path example_libs ''n'' \<mapsto> ''D''],
      unwritable = Map.empty\<rparr>"

text \<open>
  A \<^verbatim>\<open>git\<close> that knows the configuration \<open>cfg\<close>: it prints the value of a key it
  knows, and ends with status 1 for a key it does not know.
\<close>

definition git_with :: "(string \<times> string) list \<Rightarrow> string list \<Rightarrow> int \<times> string" where
  "git_with cfg argv =
     (case argv of
        [git, config, get_urlmatch, k, url] \<Rightarrow>
          (case map_of cfg k of Some v \<Rightarrow> (0, v @ ''\<newline>'') | None \<Rightarrow> (1, []))
      | _ \<Rightarrow> (1, []))"

text \<open>
  PyJWT on a value that is no string raises \<^verbatim>\<open>DecodeError\<close>; the tokens of the
  examples expire at 1700000000.
\<close>

definition pyjwt_decode :: "string option \<Rightarrow> py_error + (string \<rightharpoonup> int)" where
  "pyjwt_decode token =
     (case token of None \<Rightarrow> Inl DecodeError | Some s \<Rightarrow> Inr [''exp'' \<mapsto> 1700000000])"

definition example_sys :: "(string \<times> string) list \<Rightarrow> sys" where
  "example_sys cfg =
     \<lparr>run_git = git_with cfg, bytes_decode = Inr, repr_list = concat, jwt_decode = pyjwt_decode\<rparr>"

text \<open>A broker with no cached account whose interactive and device flows are refused.\<close>

definition denied :: py_dict where
  "denied = [''error'' \<mapsto> ''access_denied'', ''error_description'' \<mapsto> ''User cancelled'']"

definition denying_broker :: "(string, string) broker" where
  "denying_broker =
     \<lparr>get_accounts = (\<lambda>cache. []),
      acquire_token_silent = (\<lambda>account caches. (None, caches)),
      initiate_device_flow = (\<lambda>caches. ([''message'' \<mapsto> ''Enter the code''], caches)),
      acquire_token_by_device_flow = (\<lambda>flow caches. (denied, caches)),
      acquire_token_interactive = (\<lambda>caches. (denied, caches)),
      find_id_tokens = (\<lambda>cache home. [])\<rparr>"

text \<open>A request as git sends it, and the dictionary \<^verbatim>\<open>read_stdin_pairs\<close> makes of it.\<close>

definition scenario_stdin :: "string list" where
  "scenario_stdin =
     [''protocol=https\<newline>'', ''host=dev.azure.com\<newline>'', ''capability[]=authtype\<newline>'',
      ''wwwauth[]=Bearer msal-client-id=\"C\" msal-tenant-id=\"T\"\<newline>'']"

definition scenario_pairs :: helper_pairs where
  "scenario_pairs =
     [''protocol'' \<mapsto> Str ''https'', ''host'' \<mapsto> Str ''dev.azure.com'',
      ''capability'' \<mapsto> Lst [''authtype''],
      ''wwwauth'' \<mapsto> Lst [''Bearer msal-client-id=\"C\" msal-tenant-id=\"T\"'']]"

section \<open>Properties\<close>

declare py_str_nat.simps [simp del]

subsection \<open>Strings\<close>

lemma py_str_contains_iff: "py_str_contains w s \<longleftrightarrow> (\<exists>pre post. s = pre @ w @ post)"
proof (induction s)
  case Nil
  then show ?case by auto
next
  case (Cons c cs)
  show ?case
  proof
    assume "py_str_contains w (c # cs)"
    then consider "prefix w (c # cs)" | "py_str_contains w cs" by auto
    then show "\<exists>pre post. c # cs = pre @ w @ post"
    proof cases
      case 1
      then obtain post where "c # cs = w @ post" by (auto simp: prefix_def)
      then have "c # cs = [] @ w @ post" by simp
      then show ?thesis by blast
    next
      case 2
      with Cons.IH obtain pre post where "cs = pre @ w @ post" by blast
      then have "c # cs = (c # pre) @ w @ post" by simp
      then show ?thesis by blast
    qed
  next
    assume "\<exists>pre post. c # cs = pre @ w @ post"
    then obtain pre post where eq: "c # cs = pre @ w @ post" by blast
    show "py_str_contains w (c # cs)"
    proof (cases pre)
      case Nil
      with eq have "prefix w (c # cs)" by (simp add: prefix_def)
      then show ?thesis by simp
    next
      case (Cons p ps)
      with eq have "cs = ps @ w @ post" by simp
      with Cons.IH have "py_str_contains w cs" by blast
      then show ?thesis by simp
    qed
  qed
qed

lemma py_rstrip_keep: "\<not> py_isspace c \<Longrightarrow> py_rstrip (a @ c # s) = a @ c # py_rstrip s"
proof -
  assume c: "\<not> py_isspace c"
  have "dropWhile py_isspace (rev s @ c # rev a) = dropWhile py_isspace (rev s) @ c # rev a"
  proof (cases "\<forall>x\<in>set (rev s). py_isspace x")
    case True
    then have "dropWhile py_isspace (rev s) = []" by simp
    moreover from True have "dropWhile py_isspace (rev s @ c # rev a) = dropWhile py_isspace (c # rev a)"
      by (intro dropWhile_append2) auto
    ultimately show ?thesis using c by simp
  next
    case False
    then show ?thesis by (metis dropWhile_append1)
  qed
  then show ?thesis by (simp add: py_rstrip_def)
qed

subsection \<open>The parser\<close>

lemma scalar_capability_line:
  "read_stdin_pairs_line kvs (''capability='' @ X) = Inr (kvs(''capability'' \<mapsto> Str (py_rstrip X)))"
proof -
  have ns: "\<not> py_isspace CHR ''=''" by (simp add: py_isspace_def)
  have "py_rstrip (''capability='' @ X) = ''capability'' @ CHR ''='' # py_rstrip X"
    using py_rstrip_keep [OF ns, of "''capability''" X] by simp
  then show ?thesis
    by (simp add: read_stdin_pairs_line_def py_split_eq1_def py_endswith_def)
qed

text \<open>
  Claim C3.  The claim: an empty value for a multi-valued key clears the key's list, so
  the lines \<^verbatim>\<open>capability[]=a\<close>, \<^verbatim>\<open>capability[]=\<close>, \<^verbatim>\<open>capability[]=b\<close> give exactly
  \<^verbatim>\<open>["b"]\<close>.  The program clears the list and then appends the empty value to it:
  on these three lines \<^verbatim>\<open>read_stdin_pairs\<close> returns the list \<^verbatim>\<open>["", "b"]\<close> for
  \<^verbatim>\<open>capability\<close>.
\<close>

theorem read_stdin_pairs_empty_value_kept:
  "\<exists>kvs. read_stdin_pairs
           [''capability[]=a\<newline>'', ''capability[]=\<newline>'', ''capability[]=b\<newline>''] = Inr kvs
     \<and> kvs ''capability'' = Some (Lst ['''', ''b''])"
  by (simp add: read_stdin_pairs_def read_stdin_pairs_line_def py_rstrip_def py_isspace_def
      py_split_eq1_def py_endswith_def)

text \<open>
  Claim C10.  A scalar line \<^verbatim>\<open>capability=X\<close>, after any earlier lines, stores the
  string \<open>X\<close> (without its trailing whitespace) under \<^verbatim>\<open>capability\<close>, and then
  \<^verbatim>\<open>authtype_accepted\<close> is true exactly when \<^verbatim>\<open>authtype\<close> occurs in that string as a
  substring.
\<close>

theorem authtype_accepted_scalar_substring:
  "\<exists>kvs'. read_stdin_pairs_line kvs (''capability='' @ X) = Inr kvs'
      \<and> kvs' ''capability'' = Some (Str (py_rstrip X))
      \<and> authtype_accepted kvs' = (\<exists>pre post. py_rstrip X = pre @ ''authtype'' @ post)"
proof -
  let ?k = "kvs(''capability'' \<mapsto> Str (py_rstrip X))"
  have 1: "read_stdin_pairs_line kvs (''capability='' @ X) = Inr ?k"
    by (rule scalar_capability_line)
  have 2: "?k ''capability'' = Some (Str (py_rstrip X))" by simp
  have 3: "authtype_accepted ?k = (\<exists>pre post. py_rstrip X = pre @ ''authtype'' @ post)"
    by (simp add: authtype_accepted_def py_str_contains_iff)
  from 1 2 3 show ?thesis by blast
qed

text \<open>The line \<^verbatim>\<open>capability=xauthtypey\<close> alone makes \<^verbatim>\<open>authtype_accepted\<close> true.\<close>

theorem authtype_accepted_scalar_substring_witness:
  "\<exists>kvs'. read_stdin_pairs [''capability=xauthtypey\<newline>''] = Inr kvs' \<and> authtype_accepted kvs'"
proof -
  have r: "py_rstrip ''xauthtypey\<newline>'' = ''xauthtypey''"
    by (simp add: py_rstrip_def py_isspace_def)
  have "''xauthtypey'' = ''x'' @ ''authtype'' @ ''y''" by simp
  then have ex: "\<exists>pre post. ''xauthtypey'' = pre @ ''authtype'' @ post" by blast
  from authtype_accepted_scalar_substring [of Map.empty "''xauthtypey\<newline>''"] r ex
  show ?thesis by (auto simp add: read_stdin_pairs_def)
qed

subsection \<open>Cache names and paths\<close>

lemma path_join_inj:
  "path_join d a = path_join d b \<Longrightarrow> \<not> prefix ''/'' a \<Longrightarrow> \<not> prefix ''/'' b \<Longrightarrow> a = b"
  by (auto simp: path_join_def split: if_splits)

lemma http_cache_path_inj: "http_cache_path L a = http_cache_path L b \<longleftrightarrow> a = b"
proof
  assume "http_cache_path L a = http_cache_path L b"
  then have "''http_cache_'' @ a = ''http_cache_'' @ b"
    unfolding http_cache_path_def by (rule path_join_inj) simp_all
  then show "a = b" by simp
qed simp

lemma msal_cache_path_inj: "msal_cache_path L a = msal_cache_path L b \<longleftrightarrow> a = b"
proof
  assume "msal_cache_path L a = msal_cache_path L b"
  then have "''msal_cache_'' @ a = ''msal_cache_'' @ b"
    unfolding msal_cache_path_def by (rule path_join_inj) simp_all
  then show "a = b" by simp
qed simp

lemma keyring_name_neq_cache_name: "keyring_name t c \<noteq> cache_name t c"
proof
  assume "keyring_name t c = cache_name t c"
  then have "length (keyring_name t c) = length (cache_name t c)" by simp
  then show False by (simp add: keyring_name_def)
qed

lemma sep_unique:
  assumes "x \<notin> set a" "x \<notin> set b" "a @ x # c = b @ x # d"
  shows "a = b \<and> c = d"
proof -
  have "takeWhile (\<lambda>y. y \<noteq> x) (a @ x # c) = a"
    using assms(1) by (subst takeWhile_append2) auto
  moreover have "takeWhile (\<lambda>y. y \<noteq> x) (b @ x # d) = b"
    using assms(2) by (subst takeWhile_append2) auto
  ultimately have "a = b" using assms(3) by simp
  with assms(3) show ?thesis by simp
qed

lemma cache_name_inj:
  "CHR ''_'' \<notin> set t1 \<Longrightarrow> CHR ''_'' \<notin> set t2 \<Longrightarrow>
   cache_name t1 c1 = cache_name t2 c2 \<longleftrightarrow> t1 = t2 \<and> c1 = c2"
  unfolding cache_name_def using sep_unique [of "CHR ''_''" t1 t2 c1 c2] by auto

text \<open>
  Claim C2.  The claim: the HTTP cache written at the end of an acquisition is the entry
  the next acquisition for the same identity reads.  The program reads the HTTP cache
  under \<^verbatim>\<open>cache_name\<close> (line 226) and writes it under \<^verbatim>\<open>keyring_name\<close> (line 273),
  which is another file: for every identity, what \<^verbatim>\<open>get_http_cache\<close> returns under
  the name it is called with is the same before and after the \<^verbatim>\<open>put_http_cache\<close>
  of the program, whatever was written.
\<close>

theorem http_cache_written_not_read_back:
  "(\<forall>w'. put_http_cache L w (keyring_name tenant_id client_id) http_cache = Inr w'
      \<longrightarrow> get_http_cache L w' (cache_name tenant_id client_id)
          = get_http_cache L w (cache_name tenant_id client_id))
   \<and> (unwritable w (cache_dir L) = None
       \<and> unwritable w (http_cache_path L (keyring_name tenant_id client_id)) = None
      \<longrightarrow> (\<exists>w'. put_http_cache L w (keyring_name tenant_id client_id) http_cache = Inr w'))"
  using keyring_name_neq_cache_name [of tenant_id client_id]
  by (auto simp add: get_http_cache_def put_http_cache_def write_file_def http_cache_path_inj
      split: option.splits)

text \<open>
  From an empty cache directory, after the HTTP cache \<^verbatim>\<open>cached\<close> was written for
  tenant \<^verbatim>\<open>T\<close> and client \<^verbatim>\<open>C\<close>, the read for that identity gives the empty cache.
\<close>

theorem http_cache_written_not_read_back_witness:
  "\<exists>w'. put_http_cache example_libs
           \<lparr>keyring = NoKeyring, files = Map.empty, unwritable = Map.empty\<rparr>
           (keyring_name ''T'' ''C'') ''cached'' = Inr w'
     \<and> files w' (http_cache_path example_libs (keyring_name ''T'' ''C'')) = Some ''cached''
     \<and> get_http_cache example_libs w' (cache_name ''T'' ''C'') = ''{}''"
proof -
  let ?w = "\<lparr>keyring = NoKeyring, files = Map.empty, unwritable = Map.empty\<rparr>"
  let ?w' = "?w\<lparr>files := [http_cache_path example_libs (keyring_name ''T'' ''C'') \<mapsto> ''cached'']\<rparr>"
  have p: "put_http_cache example_libs ?w (keyring_name ''T'' ''C'') ''cached'' = Inr ?w'"
    by (simp add: put_http_cache_def write_file_def example_libs_def)
  have "get_http_cache example_libs ?w (cache_name ''T'' ''C'') = ''{}''"
    by (simp add: get_http_cache_def example_libs_def)
  with p http_cache_written_not_read_back [of example_libs ?w "''T''" "''C''" "''cached''"]
  have "get_http_cache example_libs ?w' (cache_name ''T'' ''C'') = ''{}''" by simp
  with p show ?thesis by simp
qed

text \<open>
  Claim C4, as stated: two distinct (tenant id, client id) pairs never get the same
  cache name and never share a cache entry.  The name is the tenant id, an underscore
  and the client id, so the pairs \<^verbatim>\<open>("a_b", "c")\<close> and \<^verbatim>\<open>("a", "b_c")\<close> share the
  cache name and the keyring name.  And the HTTP cache is read under the cache name but
  written under the keyring name, so the identity \<^verbatim>\<open>("git-credential-msal", "x_c")\<close>
  reads the HTTP-cache file that the identity \<^verbatim>\<open>("x", "c")\<close> writes.
\<close>

theorem cache_name_collision:
  "(''a_b'', ''c'') \<noteq> (''a'', ''b_c'')
   \<and> cache_name ''a_b'' ''c'' = cache_name ''a'' ''b_c''
   \<and> keyring_name ''a_b'' ''c'' = keyring_name ''a'' ''b_c''
   \<and> (''git-credential-msal'', ''x_c'') \<noteq> (''x'', ''c'')
   \<and> http_cache_path example_libs (cache_name ''git-credential-msal'' ''x_c'')
       = http_cache_path example_libs (keyring_name ''x'' ''c'')"
  by (simp add: cache_name_def keyring_name_def)

lemma cache_name_neq_keyring_name:
  assumes "CHR ''_'' \<notin> set t1" "t1 \<noteq> ''git-credential-msal''"
  shows "cache_name t1 c1 \<noteq> keyring_name t2 c2"
proof
  assume "cache_name t1 c1 = keyring_name t2 c2"
  then have "t1 @ CHR ''_'' # c1 = ''git-credential-msal'' @ CHR ''_'' # cache_name t2 c2"
    by (simp add: cache_name_def keyring_name_def)
  from sep_unique [OF assms(1) _ this] have "t1 = ''git-credential-msal''" by simp
  with assms(2) show False by simp
qed

lemma sep_unique_last:
  assumes "x \<notin> set c" "x \<notin> set d" "a @ x # c = b @ x # d"
  shows "a = b \<and> c = d"
proof -
  from assms(3) have "rev (a @ x # c) = rev (b @ x # d)" by simp
  then have "rev c @ x # rev a = rev d @ x # rev b" by simp
  with assms(1,2) sep_unique [of x "rev c" "rev d" "rev a" "rev b"] show ?thesis by simp
qed

lemma cache_name_inj_client:
  "CHR ''_'' \<notin> set c1 \<Longrightarrow> CHR ''_'' \<notin> set c2 \<Longrightarrow>
   cache_name t1 c1 = cache_name t2 c2 \<longleftrightarrow> t1 = t2 \<and> c1 = c2"
  unfolding cache_name_def using sep_unique_last [of "CHR ''_''" c1 c2 t1 t2] by auto

lemma cache_name_neq_keyring_name_client:
  assumes "CHR ''_'' \<notin> set c1" "CHR ''_'' \<notin> set c2"
      "\<not> prefix ''git-credential-msal_'' t1"
  shows "cache_name t1 c1 \<noteq> keyring_name t2 c2"
proof
  assume "cache_name t1 c1 = keyring_name t2 c2"
  then have "t1 @ CHR ''_'' # c1 = (''git-credential-msal_'' @ t2) @ CHR ''_'' # c2"
    by (simp add: cache_name_def keyring_name_def)
  from sep_unique_last [OF assms(1,2) this] have "t1 = ''git-credential-msal_'' @ t2" by simp
  then have "prefix ''git-credential-msal_'' t1" by (simp only: prefixI)
  with assms(3) show False by simp
qed

lemma msal_cache_path_neq_http_cache_path: "msal_cache_path L a \<noteq> http_cache_path L b"
proof
  assume "msal_cache_path L a = http_cache_path L b"
  then have "''msal_cache_'' @ a = ''http_cache_'' @ b"
    unfolding msal_cache_path_def http_cache_path_def by (rule path_join_inj) simp_all
  then show False by simp
qed

text \<open>
  Claim C4, amended: two distinct pairs whose tenant ids contain no underscore and are
  not the word \<^verbatim>\<open>git-credential-msal\<close>, or whose client ids contain no underscore and
  whose tenant ids do not start with \<^verbatim>\<open>git-credential-msal_\<close>, get different cache
  names and never share a cache entry: the keyring entries differ, the token-cache
  files differ, and no HTTP-cache file that one of them reads or writes is a file that
  the other reads or writes, nor the token-cache file of either.
\<close>

theorem cache_entries_not_shared:
  assumes "(t1, c1) \<noteq> (t2, c2)"
    and "CHR ''_'' \<notin> set t1 \<and> CHR ''_'' \<notin> set t2
           \<and> t1 \<noteq> ''git-credential-msal'' \<and> t2 \<noteq> ''git-credential-msal''
         \<or> CHR ''_'' \<notin> set c1 \<and> CHR ''_'' \<notin> set c2
           \<and> \<not> prefix ''git-credential-msal_'' t1 \<and> \<not> prefix ''git-credential-msal_'' t2"
  shows "cache_name t1 c1 \<noteq> cache_name t2 c2
    \<and> keyring_name t1 c1 \<noteq> keyring_name t2 c2
    \<and> msal_cache_path L (keyring_name t1 c1) \<noteq> msal_cache_path L (keyring_name t2 c2)
    \<and> http_cache_path L (cache_name t1 c1) \<noteq> http_cache_path L (cache_name t2 c2)
    \<and> http_cache_path L (keyring_name t1 c1) \<noteq> http_cache_path L (keyring_name t2 c2)
    \<and> http_cache_path L (cache_name t1 c1) \<noteq> http_cache_path L (keyring_name t2 c2)
    \<and> http_cache_path L (keyring_name t1 c1) \<noteq> http_cache_path L (cache_name t2 c2)
    \<and> msal_cache_path L (keyring_name t1 c1) \<noteq> http_cache_path L (cache_name t2 c2)
    \<and> msal_cache_path L (keyring_name t1 c1) \<noteq> http_cache_path L (keyring_name t2 c2)"
proof -
  have nxy: "cache_name t1 c1 \<noteq> cache_name t2 c2
      \<and> cache_name t1 c1 \<noteq> keyring_name t2 c2
      \<and> keyring_name t1 c1 \<noteq> cache_name t2 c2"
    using assms(2)
  proof
    assume a: "CHR ''_'' \<notin> set t1 \<and> CHR ''_'' \<notin> set t2
           \<and> t1 \<noteq> ''git-credential-msal'' \<and> t2 \<noteq> ''git-credential-msal''"
    with assms(1) have n: "cache_name t1 c1 \<noteq> cache_name t2 c2"
      by (simp add: cache_name_inj)
    from a cache_name_neq_keyring_name [of t1 c1 t2 c2]
    have x: "cache_name t1 c1 \<noteq> keyring_name t2 c2" by simp
    from a cache_name_neq_keyring_name [of t2 c2 t1 c1]
    have y: "keyring_name t1 c1 \<noteq> cache_name t2 c2" by simp
    from n x y show ?thesis by simp
  next
    assume a: "CHR ''_'' \<notin> set c1 \<and> CHR ''_'' \<notin> set c2
           \<and> \<not> prefix ''git-credential-msal_'' t1 \<and> \<not> prefix ''git-credential-msal_'' t2"
    with assms(1) have n: "cache_name t1 c1 \<noteq> cache_name t2 c2"
      by (simp add: cache_name_inj_client)
    from a cache_name_neq_keyring_name_client [of c1 c2 t1 t2]
    have x: "cache_name t1 c1 \<noteq> keyring_name t2 c2" by simp
    from a cache_name_neq_keyring_name_client [of c2 c1 t2 t1]
    have y: "keyring_name t1 c1 \<noteq> cache_name t2 c2" by simp
    from n x y show ?thesis by simp
  qed
  then show ?thesis
    by (simp add: keyring_name_def msal_cache_path_inj http_cache_path_inj
        msal_cache_path_neq_http_cache_path)
qed

text \<open>
  Two tenants and one client id with an underscore in it; and two tenant ids with an
  underscore, with client ids that have none.
\<close>

theorem cache_entries_not_shared_witness:
  "cache_name ''contoso'' ''app_1'' \<noteq> cache_name ''fabrikam'' ''app_1''
   \<and> msal_cache_path example_libs (keyring_name ''contoso'' ''app_1'')
       \<noteq> msal_cache_path example_libs (keyring_name ''fabrikam'' ''app_1'')
   \<and> http_cache_path example_libs (cache_name ''contoso'' ''app_1'')
       \<noteq> http_cache_path example_libs (keyring_name ''fabrikam'' ''app_1'')
   \<and> cache_name ''a_b'' ''c'' \<noteq> cache_name ''a_b'' ''d''
   \<and> http_cache_path example_libs (cache_name ''a_b'' ''c'')
       \<noteq> http_cache_path example_libs (keyring_name ''a_b'' ''d'')"
  using cache_entries_not_shared
          [of "''contoso''" "''app_1''" "''fabrikam''" "''app_1''" example_libs]
        cache_entries_not_shared [of "''a_b''" "''c''" "''a_b''" "''d''" example_libs]
  by simp

subsection \<open>The token cache\<close>

text \<open>
  Claim C5, as stated: the read falls back to the plaintext file only when the secure
  store is unavailable, never when the store works and has no entry for the name.  In
  \<open>insecure_only_world\<close> the store works and has no entry, and the cache returned is
  the one of the file; without the file it is the empty cache.
\<close>

theorem get_msal_cache_reads_file_when_entry_missing:
  "keyring insecure_only_world = Keyring Map.empty
   \<and> get_msal_cache example_libs insecure_only_world ''n''
       = Inr \<lparr>tc_content = ''D'', has_state_changed = False\<rparr>
   \<and> get_msal_cache example_libs (insecure_only_world\<lparr>files := Map.empty\<rparr>) ''n''
       = Inr \<lparr>tc_content = ''{}'', has_state_changed = False\<rparr>"
  by (simp add: insecure_only_world_def get_msal_cache_def keyring_get_password_def
      get_msal_cache_insecure_def deserialize_def new_token_cache_def example_libs_def)

text \<open>
  Claim C5, amended: a non-empty entry of a working secure store is the blob that is
  deserialised.  Whenever the store answers with no data, that is when there is no
  keyring backend (\<^verbatim>\<open>NoKeyringError\<close>) and also when the backend works and has no
  entry or an empty entry for the name, the plaintext file is read in its place; and
  when that gives nothing either (no file, or an empty one) the result is the empty
  cache, not an error.  Only \<^verbatim>\<open>NoKeyringError\<close> is caught: a backend that fails in
  another way makes the read raise, and the file is not read.
\<close>

theorem get_msal_cache_tiers:
  "(keyring w = Keyring m \<and> m (''system'', name) = Some (c # cs)
      \<longrightarrow> get_msal_cache L w name = deserialize L (c # cs))
   \<and> (keyring w = NoKeyring \<or> keyring w = Keyring m \<and> m (''system'', name) = None
        \<or> keyring w = Keyring m \<and> m (''system'', name) = Some []
      \<longrightarrow> get_msal_cache L w name =
            (case get_msal_cache_insecure L w name of
               Some (c # cs) \<Rightarrow> deserialize L (c # cs)
             | _ \<Rightarrow> Inr (new_token_cache L)))
   \<and> ((keyring w = NoKeyring \<or> keyring w = Keyring m \<and> m (''system'', name) = None
        \<or> keyring w = Keyring m \<and> m (''system'', name) = Some [])
       \<and> (get_msal_cache_insecure L w name = None \<or> get_msal_cache_insecure L w name = Some [])
      \<longrightarrow> get_msal_cache L w name = Inr (new_token_cache L))
   \<and> (keyring w = KeyringFailing \<longrightarrow> get_msal_cache L w name = Inl KeyringError)"
  by (auto simp add: get_msal_cache_def keyring_get_password_def)

theorem get_msal_cache_tiers_witness:
  "get_msal_cache example_libs
      \<lparr>keyring = Keyring [(''system'', ''n'') \<mapsto> ''K''], files = Map.empty, unwritable = Map.empty\<rparr> ''n''
     = Inr \<lparr>tc_content = ''K'', has_state_changed = False\<rparr>
   \<and> get_msal_cache example_libs \<lparr>keyring = NoKeyring, files = Map.empty, unwritable = Map.empty\<rparr> ''n''
     = Inr \<lparr>tc_content = ''{}'', has_state_changed = False\<rparr>
   \<and> get_msal_cache example_libs (insecure_only_world\<lparr>keyring := NoKeyring\<rparr>) ''n''
     = Inr \<lparr>tc_content = ''D'', has_state_changed = False\<rparr>
   \<and> get_msal_cache example_libs (insecure_only_world\<lparr>keyring := KeyringFailing\<rparr>) ''n''
     = Inl KeyringError"
  using get_msal_cache_tiers
          [of "\<lparr>keyring = Keyring [(''system'', ''n'') \<mapsto> ''K''], files = Map.empty, unwritable = Map.empty\<rparr>"
              "[(''system'', ''n'') \<mapsto> ''K'']" "''n''" "CHR ''K''" "[]" example_libs]
        get_msal_cache_tiers
          [of "\<lparr>keyring = NoKeyring, files = Map.empty, unwritable = Map.empty\<rparr>" Map.empty "''n''" "CHR ''K''" "[]"
              example_libs]
        get_msal_cache_tiers
          [of "insecure_only_world\<lparr>keyring := NoKeyring\<rparr>" Map.empty "''n''" "CHR ''K''" "[]"
              example_libs]
        get_msal_cache_tiers
          [of "insecure_only_world\<lparr>keyring := KeyringFailing\<rparr>" Map.empty "''n''" "CHR ''K''" "[]"
              example_libs]
  by (simp add: deserialize_def new_token_cache_def get_msal_cache_insecure_def
      insecure_only_world_def)
     (simp add: example_libs_def)

text \<open>
  Claim C9.  \<^verbatim>\<open>put_msal_cache\<close> changes nothing when the cache reports no change.
  When it has changed, the blob goes to the secure store if that works, and nothing
  else is touched; if the store is unavailable the plaintext file is written when
  insecure persistence was allowed (the exception of \<^verbatim>\<open>os.makedirs\<close> or \<^verbatim>\<open>open\<close>
  is raised when the file cannot be written) and nothing is written otherwise.  So the
  files change only when the state changed, the store is unavailable and insecure
  persistence was allowed.  (A store that fails in another way raises.)
\<close>

theorem put_msal_cache_policy:
  "(\<not> has_state_changed cache \<longrightarrow> put_msal_cache L w name cache allow_insecure = Inr w)
   \<and> (has_state_changed cache \<and> keyring w = Keyring m \<longrightarrow>
        put_msal_cache L w name cache allow_insecure
          = Inr (w\<lparr>keyring := Keyring (m((''system'', name) \<mapsto> tc_serialize L (tc_content cache)))\<rparr>))
   \<and> (has_state_changed cache \<and> keyring w = NoKeyring \<and> allow_insecure
       \<and> unwritable w (cache_dir L) = None \<and> unwritable w (msal_cache_path L name) = None \<longrightarrow>
        put_msal_cache L w name cache allow_insecure
          = Inr (w\<lparr>files := (files w)(msal_cache_path L name \<mapsto> tc_serialize L (tc_content cache))\<rparr>))
   \<and> (has_state_changed cache \<and> keyring w = NoKeyring \<and> allow_insecure
       \<and> (unwritable w (cache_dir L) = Some e
            \<or> unwritable w (cache_dir L) = None \<and> unwritable w (msal_cache_path L name) = Some e) \<longrightarrow>
        put_msal_cache L w name cache allow_insecure = Inl e)
   \<and> (has_state_changed cache \<and> keyring w = NoKeyring \<and> \<not> allow_insecure \<longrightarrow>
        put_msal_cache L w name cache allow_insecure = Inr w)
   \<and> (has_state_changed cache \<and> keyring w = KeyringFailing \<longrightarrow>
        put_msal_cache L w name cache allow_insecure = Inl KeyringError)
   \<and> (\<forall>w'. put_msal_cache L w name cache allow_insecure = Inr w' \<and> files w' \<noteq> files w \<longrightarrow>
        has_state_changed cache \<and> keyring w = NoKeyring \<and> allow_insecure)"
  by (cases "keyring w")
     (auto simp add: put_msal_cache_def keyring_set_password_def put_msal_cache_insecure_def
        write_file_def split: option.splits)

theorem put_msal_cache_policy_witness:
  "put_msal_cache example_libs \<lparr>keyring = NoKeyring, files = Map.empty, unwritable = Map.empty\<rparr> ''n''
      \<lparr>tc_content = ''S'', has_state_changed = True\<rparr> True
     = Inr \<lparr>keyring = NoKeyring, files = [msal_cache_path example_libs ''n'' \<mapsto> ''S''],
            unwritable = Map.empty\<rparr>
   \<and> put_msal_cache example_libs \<lparr>keyring = NoKeyring, files = Map.empty, unwritable = Map.empty\<rparr> ''n''
      \<lparr>tc_content = ''S'', has_state_changed = True\<rparr> False
     = Inr \<lparr>keyring = NoKeyring, files = Map.empty, unwritable = Map.empty\<rparr>
   \<and> put_msal_cache example_libs \<lparr>keyring = NoKeyring, files = Map.empty, unwritable = Map.empty\<rparr> ''n''
      \<lparr>tc_content = ''S'', has_state_changed = False\<rparr> True
     = Inr \<lparr>keyring = NoKeyring, files = Map.empty, unwritable = Map.empty\<rparr>
   \<and> put_msal_cache example_libs \<lparr>keyring = Keyring Map.empty, files = Map.empty, unwritable = Map.empty\<rparr> ''n''
      \<lparr>tc_content = ''S'', has_state_changed = True\<rparr> True
     = Inr \<lparr>keyring = Keyring [(''system'', ''n'') \<mapsto> ''S''], files = Map.empty, unwritable = Map.empty\<rparr>
   \<and> put_msal_cache example_libs
        \<lparr>keyring = NoKeyring, files = Map.empty,
          unwritable = [msal_cache_path example_libs ''a/b'' \<mapsto> FileNotFoundError]\<rparr> ''a/b''
      \<lparr>tc_content = ''S'', has_state_changed = True\<rparr> True
     = Inl FileNotFoundError"
  using put_msal_cache_policy
          [of "\<lparr>tc_content = ''S'', has_state_changed = True\<rparr>" example_libs
              "\<lparr>keyring = NoKeyring, files = Map.empty, unwritable = Map.empty\<rparr>" "''n''" True Map.empty]
        put_msal_cache_policy
          [of "\<lparr>tc_content = ''S'', has_state_changed = True\<rparr>" example_libs
              "\<lparr>keyring = NoKeyring, files = Map.empty, unwritable = Map.empty\<rparr>" "''n''" False Map.empty]
        put_msal_cache_policy
          [of "\<lparr>tc_content = ''S'', has_state_changed = False\<rparr>" example_libs
              "\<lparr>keyring = NoKeyring, files = Map.empty, unwritable = Map.empty\<rparr>" "''n''" True Map.empty]
        put_msal_cache_policy
          [of "\<lparr>tc_content = ''S'', has_state_changed = True\<rparr>" example_libs
              "\<lparr>keyring = Keyring Map.empty, files = Map.empty, unwritable = Map.empty\<rparr>" "''n''" True Map.empty]
        put_msal_cache_policy
          [of "\<lparr>tc_content = ''S'', has_state_changed = True\<rparr>" example_libs
              "\<lparr>keyring = NoKeyring, files = Map.empty,
                 unwritable = [msal_cache_path example_libs ''a/b'' \<mapsto> FileNotFoundError]\<rparr>"
              "''a/b''" True Map.empty FileNotFoundError]
  by (simp add: example_libs_def msal_cache_path_def path_join_def py_endswith_def)

subsection \<open>The patterns\<close>

lemma rx_run_lit:
  "rx_run (rx_lit w) (p, s, g) =
     (if prefix w s then [(p + length w, drop (length w) s, g)] else [])"
proof (induction w arbitrary: p s)
  case Nil
  then show ?case by simp
next
  case (Cons c w)
  show ?case
  proof (cases s)
    case Nil
    then show ?thesis by (simp add: rx_step_def)
  next
    case (Cons x xs)
    then show ?thesis using Cons.IH by (simp add: rx_step_def)
  qed
qed

lemma star_run_nonempty: "star_run f n st \<noteq> []"
  by (cases n) simp_all

text \<open>
  \<^verbatim>\<open>match\<close> need not reach the end of the string and \<^verbatim>\<open>\s*\<close> matches the empty
  string, so the bearer pattern matches every string that starts with \<^verbatim>\<open>Bearer\<close>.
\<close>

lemma is_bearer_iff: "is_bearer auth \<longleftrightarrow> prefix ''Bearer'' auth"
proof -
  have "rx_run wwwauth_bearer_matcher (0, auth, []) \<noteq> [] \<longleftrightarrow> prefix ''Bearer'' auth"
    unfolding wwwauth_bearer_matcher_def
    by (simp add: rx_run_lit star_run_nonempty del: rx_lit.simps)
  then show ?thesis
    by (cases "rx_run wwwauth_bearer_matcher (0, auth, [])") (simp_all add: is_bearer_def re_match_def)
qed

lemma bearer_accepted_loop_iff:
  "bearer_accepted_loop auths \<longleftrightarrow> (\<exists>auth\<in>set auths. prefix ''Bearer'' auth)"
  by (induction auths) (simp_all add: is_bearer_iff)

subsection \<open>The capability checks\<close>

text \<open>
  Claim C8.  The claim: \<^verbatim>\<open>bearer_accepted\<close> is true exactly when \<^verbatim>\<open>wwwauth\<close> is
  present and one of its values is \<^verbatim>\<open>Bearer\<close> alone or \<^verbatim>\<open>Bearer\<close>, whitespace and
  more; a value with another leading token does not match.  The program accepts more:
  \<^verbatim>\<open>bearer_accepted\<close> is true exactly when \<^verbatim>\<open>wwwauth\<close> is present and one of its
  values starts with the six characters \<^verbatim>\<open>Bearer\<close>, whatever follows them.
\<close>

theorem bearer_accepted_iff_prefix:
  "bearer_accepted helper_pairs \<longleftrightarrow>
     (\<exists>v. helper_pairs ''wwwauth'' = Some v \<and> (\<exists>auth\<in>set (py_iter v). prefix ''Bearer'' auth))"
  by (simp add: bearer_accepted_def bearer_accepted_loop_iff split: option.splits)

text \<open>The challenge \<^verbatim>\<open>Bearerx\<close>, whose leading token is not \<^verbatim>\<open>Bearer\<close>, is accepted.\<close>

theorem bearer_accepted_iff_prefix_witness:
  "\<exists>kvs. read_stdin_pairs [''wwwauth[]=Bearerx\<newline>''] = Inr kvs \<and> bearer_accepted kvs"
proof -
  have "read_stdin_pairs [''wwwauth[]=Bearerx\<newline>''] = Inr [''wwwauth'' \<mapsto> Lst [''Bearerx'']]"
    by (simp add: read_stdin_pairs_def read_stdin_pairs_line_def py_rstrip_def py_isspace_def
      py_split_eq1_def py_endswith_def)
  moreover have "bearer_accepted [''wwwauth'' \<mapsto> Lst [''Bearerx'']]"
    using bearer_accepted_iff_prefix [of "[''wwwauth'' \<mapsto> Lst [''Bearerx'']]"] by simp
  ultimately show ?thesis by simp
qed

subsection \<open>The request of the examples\<close>

lemma scenario_parse: "read_stdin_pairs scenario_stdin = Inr scenario_pairs"
  by (simp add: scenario_stdin_def scenario_pairs_def read_stdin_pairs_def read_stdin_pairs_line_def
      py_rstrip_def py_isspace_def py_split_eq1_def py_endswith_def)

lemma scenario_accepted: "authtype_accepted scenario_pairs" "bearer_accepted scenario_pairs"
  by (simp_all add: scenario_pairs_def authtype_accepted_def bearer_accepted_def is_bearer_iff)

lemma scenario_client:
  "re_match 3 wwwauth_client_id_matcher ''Bearer msal-client-id=\"C\" msal-tenant-id=\"T\"''
     = Some [Some ''C'', None, None]"
  by code_simp

lemma scenario_tenant:
  "re_match 3 wwwauth_tenant_id_matcher ''Bearer msal-client-id=\"C\" msal-tenant-id=\"T\"''
     = Some [Some ''T'', None, None]"
  by code_simp

lemma scenario_wwwauth:
  "extract_entra_ids_from_wwwauth scenario_pairs = Inr (Some ''C'', Some ''T'')"
  by (simp add: extract_entra_ids_from_wwwauth_def py_getitem_def scenario_pairs_def
      is_bearer_iff scenario_client scenario_tenant)

subsection \<open>Identity resolution\<close>

text \<open>
  Claim C6.  When the configuration lookup gives both the client id and the tenant id,
  that pair is the identity; when it gives only one of them or none, the identity is
  the pair \<^verbatim>\<open>extract_entra_ids_from_wwwauth\<close> reads from the challenges, and no half
  of the configuration is kept.
\<close>

theorem resolve_entra_ids_as_a_unit:
  "(extract_entra_ids_from_git_config S helper_pairs = Inr (Some c, Some t)
      \<longrightarrow> resolve_entra_ids S helper_pairs = Inr (Some c, Some t))
   \<and> (extract_entra_ids_from_git_config S helper_pairs = Inr (cfg_c, cfg_t)
       \<and> (cfg_c = None \<or> cfg_t = None)
      \<longrightarrow> resolve_entra_ids S helper_pairs = extract_entra_ids_from_wwwauth helper_pairs)"
  by (auto simp add: resolve_entra_ids_def)

text \<open>
  With both keys configured the configured pair wins over the challenge; with only the
  client id configured the whole pair comes from the challenge.
\<close>

theorem resolve_entra_ids_as_a_unit_witness:
  "resolve_entra_ids
      (example_sys [(''credential.msalClientId'', ''c0''), (''credential.msalTenantId'', ''t0'')])
      scenario_pairs = Inr (Some ''c0'', Some ''t0'')
   \<and> resolve_entra_ids (example_sys [(''credential.msalClientId'', ''c0'')]) scenario_pairs
       = Inr (Some ''C'', Some ''T'')"
proof -
  let ?both = "example_sys [(''credential.msalClientId'', ''c0''), (''credential.msalTenantId'', ''t0'')]"
  let ?one = "example_sys [(''credential.msalClientId'', ''c0'')]"
  have b: "extract_entra_ids_from_git_config ?both scenario_pairs = Inr (Some ''c0'', Some ''t0'')"
    by (simp add: extract_entra_ids_from_git_config_def git_config_get_urlmatch_def
        example_sys_def git_with_def py_getitem_def scenario_pairs_def py_bytes_rstrip_def
        py_bytes_isspace_def)
  have a: "extract_entra_ids_from_git_config ?one scenario_pairs = Inr (Some ''c0'', None)"
    by (simp add: extract_entra_ids_from_git_config_def git_config_get_urlmatch_def
        example_sys_def git_with_def py_getitem_def scenario_pairs_def py_bytes_rstrip_def
        py_bytes_isspace_def)
  from resolve_entra_ids_as_a_unit [of ?both scenario_pairs "''c0''" "''t0''" None None] b
  have 1: "resolve_entra_ids ?both scenario_pairs = Inr (Some ''c0'', Some ''t0'')" by simp
  from resolve_entra_ids_as_a_unit [of ?one scenario_pairs "''c0''" "''t0''" "Some ''c0''" None] a
  have 2: "resolve_entra_ids ?one scenario_pairs = Inr (Some ''C'', Some ''T'')"
    by (simp add: scenario_wwwauth)
  from 1 2 show ?thesis by simp
qed

subsection \<open>A broker error\<close>

lemma msal_acquire_error:
  assumes "get_msal_cache L w (keyring_name t c) = Inr cache"
      "acquire_tokens (msal_app c (''https://login.microsoftonline.com/'' @ t)) dc
         (cache, get_http_cache L w (cache_name t c)) = (Inr r, caches, lines)"
      "r ''error'' = Some code" "r ''error_description'' = Some description"
  shows "msal_acquire_oidc_id_token L msal_app w c t dc ai =
     (case put_msal_cache L w (keyring_name t c) (fst caches) ai of
        Inl e \<Rightarrow> (Inl e, w, lines @ [''Error: '' @ code, ''Description: '' @ description])
      | Inr w1 \<Rightarrow>
          (case put_http_cache L w1 (keyring_name t c) (snd caches) of
             Inl e \<Rightarrow> (Inl e, w1, lines @ [''Error: '' @ code, ''Description: '' @ description])
           | Inr w2 \<Rightarrow>
               (Inr None, w2, lines @ [''Error: '' @ code, ''Description: '' @ description])))"
  using assms
  by (simp add: msal_acquire_oidc_id_token_def read_tokens_result_def dict_getitem_def
      split: sum.splits)

text \<open>
  Claim C1.  The claim: when the broker reports an error, \<^verbatim>\<open>get\<close> prints the error
  code and the description to standard error, prints no credential line and ends with
  status zero.  In every run of \<^verbatim>\<open>get\<close> that reaches the broker and gets an error
  result, the two lines are printed, and then \<^verbatim>\<open>main\<close> hands the \<^verbatim>\<open>None\<close> that
  \<^verbatim>\<open>msal_acquire_oidc_id_token\<close> returned to \<^verbatim>\<open>jwt_expired_value\<close>: the run never
  ends with status zero and an empty standard output, and when the decoder raises on
  \<^verbatim>\<open>None\<close> (as PyJWT does) the run ends with that uncaught exception.
\<close>

theorem main_broker_error_not_clean:
  assumes "command a = ''get''"
      "read_stdin_pairs stdin = Inr helper_pairs"
      "authtype_accepted helper_pairs" "bearer_accepted helper_pairs"
      "resolve_entra_ids S helper_pairs = Inr (Some c, Some t)"
      "get_msal_cache L w (keyring_name t c) = Inr cache"
      "acquire_tokens (msal_app c (''https://login.microsoftonline.com/'' @ t)) (device_code a)
         (cache, get_http_cache L w (cache_name t c)) = (Inr r, caches, lines)"
      "r ''error'' = Some code" "r ''error_description'' = Some description"
  shows "err (main S L msal_app a stdin w)
           = lines @ [''Error: '' @ code, ''Description: '' @ description]
    \<and> \<not> (ending (main S L msal_app a stdin w) = Exit 0 \<and> out (main S L msal_app a stdin w) = [])
    \<and> (\<forall>e. jwt_decode S None = Inl e \<longrightarrow>
          out (main S L msal_app a stdin w) = []
          \<and> ending (main S L msal_app a stdin w) =
              (case put_msal_cache L w (keyring_name t c) (fst caches) (insecure a) of
                 Inl e' \<Rightarrow> Uncaught e'
               | Inr w1 \<Rightarrow>
                   (case put_http_cache L w1 (keyring_name t c) (snd caches) of
                      Inl e' \<Rightarrow> Uncaught e'
                    | Inr w2 \<Rightarrow> Uncaught e)))"
  using assms(1-5)
    msal_acquire_error [where msal_app = msal_app and ai = "insecure a", OF assms(6-9)]
  by (auto simp add: main_def jwt_expired_value_def split: sum.splits option.splits)

text \<open>
  The request of the examples, no configuration, a user who cancels the sign-in: the
  run prints the two lines to standard error and ends with an uncaught
  \<^verbatim>\<open>DecodeError\<close>.
\<close>

theorem main_broker_error_not_clean_witness:
  "ending (main (example_sys []) example_libs (\<lambda>client_id authority. denying_broker)
            \<lparr>command = ''get'', device_code = False, insecure = False\<rparr> scenario_stdin
            \<lparr>keyring = NoKeyring, files = Map.empty, unwritable = Map.empty\<rparr>) = Uncaught DecodeError
   \<and> out (main (example_sys []) example_libs (\<lambda>client_id authority. denying_broker)
            \<lparr>command = ''get'', device_code = False, insecure = False\<rparr> scenario_stdin
            \<lparr>keyring = NoKeyring, files = Map.empty, unwritable = Map.empty\<rparr>) = []
   \<and> err (main (example_sys []) example_libs (\<lambda>client_id authority. denying_broker)
            \<lparr>command = ''get'', device_code = False, insecure = False\<rparr> scenario_stdin
            \<lparr>keyring = NoKeyring, files = Map.empty, unwritable = Map.empty\<rparr>)
       = [''Error: access_denied'', ''Description: User cancelled'']"
proof -
  let ?w = "\<lparr>keyring = NoKeyring, files = Map.empty, unwritable = Map.empty\<rparr>"
  let ?a = "\<lparr>command = ''get'', device_code = False, insecure = False\<rparr>"
  have 1: "command ?a = ''get''" by simp
  have "extract_entra_ids_from_git_config (example_sys []) scenario_pairs = Inr (None, None)"
    by (simp add: extract_entra_ids_from_git_config_def git_config_get_urlmatch_def
        example_sys_def git_with_def py_getitem_def scenario_pairs_def)
  then have 5: "resolve_entra_ids (example_sys []) scenario_pairs = Inr (Some ''C'', Some ''T'')"
    by (simp add: resolve_entra_ids_def scenario_wwwauth)
  have 6: "get_msal_cache example_libs ?w (keyring_name ''T'' ''C'') = Inr (new_token_cache example_libs)"
    by (simp add: get_msal_cache_def keyring_get_password_def get_msal_cache_insecure_def)
  have 7: "acquire_tokens
             ((\<lambda>client_id authority. denying_broker) ''C'' (''https://login.microsoftonline.com/'' @ ''T''))
             (device_code ?a)
             (new_token_cache example_libs, get_http_cache example_libs ?w (cache_name ''T'' ''C''))
           = (Inr denied, (new_token_cache example_libs, ''{}''), [])"
    by (simp add: acquire_tokens_def denying_broker_def get_http_cache_def example_libs_def)
  have 8: "denied ''error'' = Some ''access_denied''" by (simp add: denied_def)
  have 9: "denied ''error_description'' = Some ''User cancelled''" by (simp add: denied_def)
  have d: "jwt_decode (example_sys []) None = Inl DecodeError"
    by (simp add: example_sys_def pyjwt_decode_def)
  have p: "put_msal_cache example_libs ?w (keyring_name ''T'' ''C'') (new_token_cache example_libs) False
             = Inr ?w"
    by (simp add: put_msal_cache_def new_token_cache_def)
  have h: "\<exists>w2. put_http_cache example_libs ?w (keyring_name ''T'' ''C'') ''{}'' = Inr w2"
    by (simp add: put_http_cache_def write_file_def)
  from main_broker_error_not_clean [OF 1 scenario_parse scenario_accepted 5 6 7 8 9] d p h
  show ?thesis by auto
qed

subsection \<open>Running the patterns\<close>

lemma star_dot_Nil: "rx_run (Star Dot) (p, [], g) = [(p, [], g)]"
  by (simp add: rx_rest_def)

lemma star_dot_Cons:
  "rx_run (Star Dot) (p, x # xs, g) =
     (if x \<noteq> CHR 0x0A then rx_run (Star Dot) (Suc p, xs, g) else []) @ [(p, x # xs, g)]"
  by (simp add: rx_rest_def rx_step_def)

lemma lazy_dot_Nil: "rx_run (Lazy Dot) (p, [], g) = [(p, [], g)]"
  by (simp add: rx_rest_def)

lemma lazy_dot_Cons:
  "rx_run (Lazy Dot) (p, x # xs, g) =
     (p, x # xs, g) # (if x \<noteq> CHR 0x0A then rx_run (Lazy Dot) (Suc p, xs, g) else [])"
  by (simp add: rx_rest_def rx_step_def)

lemma rx_capture_apply:
  "rx_capture n (p0, s0, g0) (p', s', g') = (p', s', g'[n := Some (take (p' - p0) s0)])"
  by (simp add: rx_capture_def)

lemmas rx_folded = rx_run.simps(8) rx_run.simps(9) rx_lit.simps

lemma star_dot_all:
  "CHR 0x0A \<notin> set v \<Longrightarrow> \<exists>more. rx_run (Star Dot) (p, v, g) = (p + length v, [], g) # more"
proof (induction v arbitrary: p)
  case Nil
  then show ?case by (simp add: star_dot_Nil del: rx_folded)
next
  case (Cons x xs)
  from Cons.prems have x: "x \<noteq> CHR 0x0A" and xs: "CHR 0x0A \<notin> set xs" by auto
  from Cons.IH [OF xs, of "Suc p"] obtain more
    where "rx_run (Star Dot) (Suc p, xs, g) = (Suc p + length xs, [], g) # more" by blast
  with x show ?case by (simp add: star_dot_Cons del: rx_folded)
qed

lemma lazy_dot_until:
  assumes "c \<notin> set v" "CHR 0x0A \<notin> set v"
  shows "\<exists>more. concat (map (rx_run (rx_lit [c]))
             (map (rx_capture n (p0, s0, g0)) (rx_run (Lazy Dot) (p, v @ c # post, g))))
           = (Suc (p + length v), post, g[n := Some (take (p + length v - p0) s0)]) # more"
  using assms
proof (induction v arbitrary: p)
  case Nil
  show ?case
    by (simp add: lazy_dot_Cons rx_run_lit rx_capture_apply del: rx_folded)
next
  case (Cons x xs)
  from Cons.prems have x: "x \<noteq> CHR 0x0A" "x \<noteq> c" and xs: "c \<notin> set xs" "CHR 0x0A \<notin> set xs"
    by auto
  from Cons.IH [OF xs, of "Suc p"] obtain more where
    "concat (map (rx_run (rx_lit [c]))
             (map (rx_capture n (p0, s0, g0)) (rx_run (Lazy Dot) (Suc p, xs @ c # post, g))))
       = (Suc (Suc p + length xs), post, g[n := Some (take (Suc p + length xs - p0) s0)]) # more"
    by blast
  with x show ?case
    by (simp add: lazy_dot_Cons rx_run_lit rx_capture_apply del: rx_folded)
qed

lemma lazy_dot_none:
  "c \<notin> set v \<Longrightarrow>
   concat (map (rx_run (rx_lit [c])) (map (rx_capture n (p0, s0, g0)) (rx_run (Lazy Dot) (p, v, g)))) = []"
proof (induction v arbitrary: p)
  case Nil
  show ?case by (simp add: lazy_dot_Nil rx_run_lit rx_capture_apply del: rx_folded)
next
  case (Cons x xs)
  from Cons.prems have x: "x \<noteq> c" and xs: "c \<notin> set xs" by auto
  from Cons.IH [OF xs, of "Suc p"] x show ?case
    by (simp add: lazy_dot_Cons rx_run_lit rx_capture_apply del: rx_folded)
qed

lemmas rx_seq_folded = rx_run.simps(6) rx_run.simps(10) rx_folded

lemma seq_lit:
  "rx_run (Seq (rx_lit w) r) (p, s, g) =
     (if prefix w s then rx_run r (p + length w, drop (length w) s, g) else [])"
  by (simp add: rx_run_lit del: rx_folded)

lemma seq_star_dot_Nil: "rx_run (Seq (Star Dot) r) (p, [], g) = rx_run r (p, [], g)"
  by (simp add: star_dot_Nil del: rx_folded)

lemma seq_star_dot_Cons:
  "rx_run (Seq (Star Dot) r) (p, x # xs, g) =
     (if x \<noteq> CHR 0x0A then rx_run (Seq (Star Dot) r) (Suc p, xs, g) else [])
       @ rx_run r (p, x # xs, g)"
  by (simp add: star_dot_Cons del: rx_folded)

lemma group_lazy_until:
  assumes "c \<notin> set v" "CHR 0x0A \<notin> set v"
  shows "\<exists>more. rx_run (Seq (Group n (Lazy Dot)) (rx_lit [c])) (p, v @ c # post, g)
           = (Suc (p + length v), post, g[n := Some v]) # more"
  using lazy_dot_until [OF assms, of n p "v @ c # post" g p post g]
  unfolding rx_run.simps(6) rx_run.simps(10) by simp

lemma group_lazy_none:
  "c \<notin> set v \<Longrightarrow> rx_run (Seq (Group n (Lazy Dot)) (rx_lit [c])) (p, v, g) = []"
  using lazy_dot_none [of c v n p v g p g]
  unfolding rx_run.simps(6) rx_run.simps(10) by simp

lemma group_star_all:
  assumes "CHR 0x0A \<notin> set v"
  shows "\<exists>more. rx_run (Group n (Star Dot)) (p, v, g) = (p + length v, [], g[n := Some v]) # more"
proof -
  from star_dot_all [OF assms, of p g] obtain more
    where "rx_run (Star Dot) (p, v, g) = (p + length v, [], g) # more" by blast
  then show ?thesis
    unfolding rx_run.simps(10) by (simp add: rx_capture_apply del: rx_folded)
qed

lemma value_quoted:
  assumes "CHR 0x22 \<notin> set v" "CHR 0x0A \<notin> set v"
  shows "\<exists>more. rx_run wwwauth_param_value (p, ''=\"'' @ v @ ''\"'' @ post, g)
           = (p + length v + 3, post, g[0 := Some v]) # more"
proof -
  from group_lazy_until [OF assms, of 0 "p + 2" post g]
  obtain more where
    "rx_run (Seq (Group 0 (Lazy Dot)) (rx_lit ''\"'')) (p + 2, v @ CHR 0x22 # post, g)
     = (Suc (p + 2 + length v), post, g[0 := Some v]) # more"
    by blast
  then show ?thesis
    by (simp add: wwwauth_param_value_def seq_lit del: rx_seq_folded)
qed

lemma value_comma:
  assumes "\<not> prefix ''\"'' v" "CHR '','' \<notin> set v" "CHR 0x0A \<notin> set v"
  shows "\<exists>more. rx_run wwwauth_param_value (p, ''='' @ v @ '','' @ post, g)
           = (p + length v + 2, post, g[1 := Some v]) # more"
proof -
  from assms(1) have nq: "\<not> prefix ''=\"'' (''='' @ v @ '','' @ post)"
    by (cases v) auto
  from group_lazy_until [OF assms(2,3), of 1 "p + 1" post g]
  obtain more where
    "rx_run (Seq (Group 1 (Lazy Dot)) (rx_lit '','')) (p + 1, v @ CHR '','' # post, g)
     = (Suc (p + 1 + length v), post, g[1 := Some v]) # more"
    by blast
  with nq show ?thesis
    by (simp add: wwwauth_param_value_def seq_lit del: rx_seq_folded)
qed

lemma value_end:
  assumes "\<not> prefix ''\"'' v" "CHR '','' \<notin> set v" "CHR 0x0A \<notin> set v"
  shows "\<exists>more. rx_run wwwauth_param_value (p, ''='' @ v, g)
           = (p + length v + 1, [], g[2 := Some v]) # more"
proof -
  from assms(1) have nq: "\<not> prefix ''=\"'' (''='' @ v)"
    by (cases v) auto
  from group_star_all [OF assms(3), of 2 "p + 1" g] obtain more
    where "rx_run (Group 2 (Star Dot)) (p + 1, v, g) = (p + 1 + length v, [], g[2 := Some v]) # more"
    by blast
  with nq group_lazy_none [OF assms(2), of 1 "p + 1" g] show ?thesis
    by (simp add: wwwauth_param_value_def seq_lit del: rx_seq_folded)
qed

lemma value_needs_eq:
  "\<not> prefix ''='' t \<Longrightarrow> rx_run wwwauth_param_value (q, t, g) = []"
  by (cases t) (auto simp add: wwwauth_param_value_def seq_lit simp del: rx_seq_folded)

lemma param_fail:
  "\<not> prefix (k @ ''='') t \<Longrightarrow> rx_run (Seq (rx_lit k) wwwauth_param_value) (q, t, g) = []"
proof (cases "prefix k t")
  case False
  then show ?thesis by (simp add: seq_lit del: rx_seq_folded)
next
  case True
  assume "\<not> prefix (k @ ''='') t"
  with True have "\<not> prefix ''='' (drop (length k) t)"
    by (auto simp add: prefix_def)
  with True show ?thesis by (simp add: seq_lit value_needs_eq del: rx_seq_folded)
qed

lemma greedy_none:
  "\<not> py_str_contains (k @ ''='') s \<Longrightarrow> rx_run (wwwauth_param_matcher k) (p, s, g) = []"
  unfolding wwwauth_param_matcher_def
proof (induction s arbitrary: p)
  case Nil
  then show ?case by (simp add: seq_star_dot_Nil param_fail del: rx_seq_folded)
next
  case (Cons x xs)
  then show ?case by (simp add: seq_star_dot_Cons param_fail del: rx_seq_folded)
qed

lemma greedy_skip:
  "CHR 0x0A \<notin> set pre \<Longrightarrow>
   rx_run (Seq (Star Dot) r) (p + length pre, m, g) = st # others \<Longrightarrow>
   \<exists>others'. rx_run (Seq (Star Dot) r) (p, pre @ m, g) = st # others'"
proof (induction pre arbitrary: p)
  case Nil
  then show ?case by simp
next
  case (Cons x xs)
  from Cons.prems have x: "x \<noteq> CHR 0x0A" and xs: "CHR 0x0A \<notin> set xs" by auto
  from Cons.prems(2) have "rx_run (Seq (Star Dot) r) (Suc p + length xs, m, g) = st # others"
    by simp
  from Cons.IH [OF xs this] obtain others' where
    "rx_run (Seq (Star Dot) r) (Suc p, xs @ m, g) = st # others'" by blast
  with x show ?case by (simp add: seq_star_dot_Cons del: rx_seq_folded)
qed

lemma param_match_at:
  assumes "CHR 0x0A \<notin> set pre" "k \<noteq> []"
      "\<not> py_str_contains (k @ ''='') (tl (k @ w))"
      "rx_run wwwauth_param_value (length pre + length k, w, g) = st # others"
  shows "\<exists>others'. rx_run (wwwauth_param_matcher k) (0, pre @ k @ w, g) = st # others'"
proof -
  from assms(2) obtain x xs where k: "k @ w = x # xs" by (cases k) auto
  with assms(3) have "rx_run (wwwauth_param_matcher k) (Suc (length pre), xs, g) = []"
    by (simp add: greedy_none)
  then have "rx_run (wwwauth_param_matcher k) (length pre, x # xs, g)
      = rx_run (Seq (rx_lit k) wwwauth_param_value) (length pre, x # xs, g)"
    by (simp add: wwwauth_param_matcher_def seq_star_dot_Cons del: rx_seq_folded)
  then have "rx_run (wwwauth_param_matcher k) (length pre, k @ w, g)
      = rx_run (Seq (rx_lit k) wwwauth_param_value) (length pre, k @ w, g)"
    by (simp only: k)
  also have "\<dots> = rx_run wwwauth_param_value (length pre + length k, w, g)"
    by (simp add: seq_lit del: rx_seq_folded)
  finally have "rx_run (Seq (Star Dot) (Seq (rx_lit k) wwwauth_param_value))
      (0 + length pre, k @ w, g) = st # others"
    using assms(4) by (simp add: wwwauth_param_matcher_def del: rx_seq_folded)
  from greedy_skip [OF assms(1) this] show ?thesis
    by (simp add: wwwauth_param_matcher_def del: rx_seq_folded)
qed

subsection \<open>Captured groups\<close>

lemma star_dot_caps: "st' \<in> set (rx_run (Star Dot) (p, s, g)) \<Longrightarrow> snd (snd st') = g"
proof (induction s arbitrary: p)
  case Nil
  then show ?case by (simp add: star_dot_Nil del: rx_seq_folded)
next
  case (Cons x xs)
  then show ?case by (auto simp add: star_dot_Cons simp del: rx_seq_folded split: if_splits)
qed

lemma lazy_dot_caps: "st' \<in> set (rx_run (Lazy Dot) (p, s, g)) \<Longrightarrow> snd (snd st') = g"
proof (induction s arbitrary: p)
  case Nil
  then show ?case by (simp add: lazy_dot_Nil del: rx_seq_folded)
next
  case (Cons x xs)
  then show ?case by (auto simp add: lazy_dot_Cons simp del: rx_seq_folded split: if_splits)
qed

lemma group_lazy_caps:
  assumes "st' \<in> set (rx_run (Seq (Group n (Lazy Dot)) (rx_lit w)) (p, s, g))"
  shows "\<exists>v. snd (snd st') = g[n := Some v]"
proof -
  from assms obtain st1 where 1: "st1 \<in> set (rx_run (Lazy Dot) (p, s, g))"
    and 2: "st' \<in> set (rx_run (rx_lit w) (rx_capture n (p, s, g) st1))"
    unfolding rx_run.simps(6) rx_run.simps(10) by auto
  obtain p1 s1 g1 where st1: "st1 = (p1, s1, g1)" by (cases st1) auto
  with 1 have "g1 = g" using lazy_dot_caps by fastforce
  with 2 st1 show ?thesis
    by (auto simp add: rx_capture_apply rx_run_lit simp del: rx_seq_folded split: if_splits)
qed

lemma group_star_caps:
  assumes "st' \<in> set (rx_run (Group n (Star Dot)) (p, s, g))"
  shows "\<exists>v. snd (snd st') = g[n := Some v]"
proof -
  from assms obtain st1 where 1: "st1 \<in> set (rx_run (Star Dot) (p, s, g))"
    and 2: "st' = rx_capture n (p, s, g) st1"
    unfolding rx_run.simps(10) by auto
  obtain p1 s1 g1 where st1: "st1 = (p1, s1, g1)" by (cases st1) auto
  with 1 have "g1 = g" using star_dot_caps by fastforce
  with 2 st1 show ?thesis by (auto simp add: rx_capture_apply)
qed

lemma value_caps:
  assumes "st' \<in> set (rx_run wwwauth_param_value (p, s, g))"
  shows "\<exists>v. snd (snd st') = g[0 := Some v] \<or> snd (snd st') = g[1 := Some v]
           \<or> snd (snd st') = g[2 := Some v]"
proof -
  from assms consider
      "st' \<in> set (rx_run (Seq (Group 0 (Lazy Dot)) (rx_lit ''\"'')) (p + length ''=\"'', drop (length ''=\"'') s, g))"
    | "st' \<in> set (rx_run (Seq (Group 1 (Lazy Dot)) (rx_lit '','')) (p + length ''='', drop (length ''='') s, g))"
    | "st' \<in> set (rx_run (Group 2 (Star Dot)) (p + length ''='', drop (length ''='') s, g))"
    by (auto simp add: wwwauth_param_value_def seq_lit simp del: rx_seq_folded split: if_splits)
  then show ?thesis
  proof cases
    case 1
    from group_lazy_caps [OF 1] show ?thesis by blast
  next
    case 2
    from group_lazy_caps [OF 2] show ?thesis by blast
  next
    case 3
    from group_star_caps [OF 3] show ?thesis by blast
  qed
qed

lemma matcher_caps:
  assumes "st' \<in> set (rx_run (wwwauth_param_matcher k) (p, s, g))"
  shows "\<exists>v. snd (snd st') = g[0 := Some v] \<or> snd (snd st') = g[1 := Some v]
           \<or> snd (snd st') = g[2 := Some v]"
proof -
  from assms obtain st1 where 1: "st1 \<in> set (rx_run (Star Dot) (p, s, g))"
    and 2: "st' \<in> set (rx_run (Seq (rx_lit k) wwwauth_param_value) st1)"
    unfolding wwwauth_param_matcher_def rx_run.simps(6) [of "Star Dot"] by auto
  obtain p1 s1 g1 where st1: "st1 = (p1, s1, g1)" by (cases st1) auto
  with 1 have "g1 = g" using star_dot_caps by fastforce
  with 2 st1 have "st' \<in> set (rx_run wwwauth_param_value (p1 + length k, drop (length k) s1, g))"
    by (auto simp add: seq_lit simp del: rx_seq_folded split: if_splits)
  from value_caps [OF this] show ?thesis .
qed

lemma re_match_param_first_group:
  assumes "re_match 3 (wwwauth_param_matcher k) s = Some gs"
  shows "\<exists>v. first_group gs x = Some v"
proof -
  from assms obtain st others where
    r: "rx_run (wwwauth_param_matcher k) (0, s, [None, None, None]) = st # others"
    and gs: "gs = snd (snd st)"
    by (auto simp add: re_match_def numeral_3_eq_3 split: list.splits)
  from r have "st \<in> set (rx_run (wwwauth_param_matcher k) (0, s, [None, None, None]))" by simp
  from matcher_caps [OF this] gs show ?thesis by auto
qed

lemma challenge_param_None:
  "challenge_param (wwwauth_param_matcher k) auth = None
     \<longleftrightarrow> re_match 3 (wwwauth_param_matcher k) auth = None"
  using re_match_param_first_group [of k auth _ None]
  by (auto simp add: challenge_param_def split: option.splits)

lemma wwwauth_loop_find:
  "wwwauth_loop (None, None) auths =
     (case find challenge_yields_both auths of
        None \<Rightarrow> (None, None)
      | Some auth \<Rightarrow> (challenge_param wwwauth_client_id_matcher auth,
                     challenge_param wwwauth_tenant_id_matcher auth))"
proof (induction auths)
  case Nil
  then show ?case by simp
next
  case (Cons a rest)
  show ?case
  proof (cases "challenge_yields_both a")
    case True
    then obtain c t where ct: "challenge_param wwwauth_client_id_matcher a = Some c"
        "challenge_param wwwauth_tenant_id_matcher a = Some t" and b: "is_bearer a"
      by (auto simp add: challenge_yields_both_def)
    then show ?thesis using True
      by (auto simp add: challenge_param_def split: option.splits)
  next
    case False
    then consider "\<not> is_bearer a"
      | "re_match 3 wwwauth_client_id_matcher a = None"
      | "re_match 3 wwwauth_tenant_id_matcher a = None"
      using challenge_param_None [of "''msal-client-id''" a]
        challenge_param_None [of "''msal-tenant-id''" a]
      by (auto simp add: challenge_yields_both_def wwwauth_client_id_matcher_def
          wwwauth_tenant_id_matcher_def)
    then show ?thesis using False Cons.IH
      by cases (auto split: option.splits)
  qed
qed

subsection \<open>Challenge parameters\<close>

lemma param_shape:
  assumes "CHR 0x0A \<notin> set pre" "k \<noteq> []"
      "\<not> py_str_contains (k @ ''='') (tl (k @ w))"
      "\<exists>others. rx_run wwwauth_param_value (length pre + length k, w, [None, None, None])
          = (q, rest, [None, None, None][i := Some v]) # others"
      "i < 3"
  shows "challenge_param (wwwauth_param_matcher k) (pre @ k @ w) = Some v"
proof -
  from assms(4) obtain others where
    "rx_run wwwauth_param_value (length pre + length k, w, [None, None, None])
       = (q, rest, [None, None, None][i := Some v]) # others" by blast
  from param_match_at [OF assms(1-3) this] obtain others' where
    "rx_run (wwwauth_param_matcher k) (0, pre @ k @ w, [None, None, None])
       = (q, rest, [None, None, None][i := Some v]) # others'" by blast
  then have "re_match 3 (wwwauth_param_matcher k) (pre @ k @ w) = Some ([None, None, None][i := Some v])"
    by (simp add: re_match_def numeral_3_eq_3)
  moreover from assms(5) have "i = 0 \<or> i = 1 \<or> i = 2" by auto
  then have "first_group ([None, None, None][i := Some v]) None = Some v" by auto
  ultimately show ?thesis by (simp add: challenge_param_def)
qed

lemma key_once:
  assumes "k = ''msal-client-id'' \<or> k = ''msal-tenant-id''"
      "\<not> py_str_contains (k @ ''='') w"
  shows "\<not> py_str_contains (k @ ''='') (tl (k @ ''='' @ w))"
  using assms by auto

lemma challenge_yields_both_prefix:
  "challenge_yields_both =
     (\<lambda>auth. prefix ''Bearer'' auth
        \<and> challenge_param wwwauth_client_id_matcher auth \<noteq> None
        \<and> challenge_param wwwauth_tenant_id_matcher auth \<noteq> None)"
  by (rule ext) (simp add: challenge_yields_both_def is_bearer_iff)

lemma spec_bearer_shape_prefix: "spec_bearer_shape auth \<Longrightarrow> prefix ''Bearer'' auth"
  by (simp add: spec_bearer_shape_def)

text \<open>
  Claim C7.  The claim: the patterns recover both parameters from the three shapes, a
  challenge must give both or it gives neither, and the first bearer-shaped challenge
  that gives both wins.  For each of the two keys, the pattern does recover the value
  from \<^verbatim>\<open>KEY="value"\<close>, \<^verbatim>\<open>KEY=value,\<close> and \<^verbatim>\<open>KEY=value\<close> at the end of the challenge
  (the value free of the shape's delimiter, the key not repeated after it, an unquoted
  value not starting with a quote), and a challenge without \<^verbatim>\<open>KEY=\<close> gives nothing
  for that key.  Over the challenges of a request \<^verbatim>\<open>extract_entra_ids_from_wwwauth\<close>
  returns the two values of the first challenge that starts with the characters
  \<^verbatim>\<open>Bearer\<close> and gives both, and the pair of \<^verbatim>\<open>None\<close> when there is none.  That is
  the first bearer-shaped challenge giving both only when every challenge that starts
  with \<^verbatim>\<open>Bearer\<close> has the bearer shape: a challenge such as \<^verbatim>\<open>Bearerx ...\<close> is
  taken too.
\<close>

theorem wwwauth_challenge_extraction:
  "((k = ''msal-client-id'' \<or> k = ''msal-tenant-id'')
      \<and> CHR 0x0A \<notin> set pre \<and> CHR 0x22 \<notin> set v \<and> CHR 0x0A \<notin> set v
      \<and> \<not> py_str_contains (k @ ''='') (v @ ''\"'' @ post)
     \<longrightarrow> challenge_param (wwwauth_param_matcher k) (pre @ k @ ''=\"'' @ v @ ''\"'' @ post) = Some v)
   \<and> ((k = ''msal-client-id'' \<or> k = ''msal-tenant-id'')
      \<and> CHR 0x0A \<notin> set pre \<and> \<not> prefix ''\"'' v \<and> CHR '','' \<notin> set v \<and> CHR 0x0A \<notin> set v
      \<and> \<not> py_str_contains (k @ ''='') (v @ '','' @ post)
     \<longrightarrow> challenge_param (wwwauth_param_matcher k) (pre @ k @ ''='' @ v @ '','' @ post) = Some v)
   \<and> ((k = ''msal-client-id'' \<or> k = ''msal-tenant-id'')
      \<and> CHR 0x0A \<notin> set pre \<and> \<not> prefix ''\"'' v \<and> CHR '','' \<notin> set v \<and> CHR 0x0A \<notin> set v
      \<and> \<not> py_str_contains (k @ ''='') v
     \<longrightarrow> challenge_param (wwwauth_param_matcher k) (pre @ k @ ''='' @ v) = Some v)
   \<and> (\<not> py_str_contains (k @ ''='') auth
     \<longrightarrow> challenge_param (wwwauth_param_matcher k) auth = None)
   \<and> (helper_pairs ''protocol'' \<noteq> None \<and> helper_pairs ''host'' \<noteq> None
      \<and> helper_pairs ''wwwauth'' = Some auths
     \<longrightarrow> extract_entra_ids_from_wwwauth helper_pairs =
          Inr (case find (\<lambda>auth. prefix ''Bearer'' auth
                            \<and> challenge_param wwwauth_client_id_matcher auth \<noteq> None
                            \<and> challenge_param wwwauth_tenant_id_matcher auth \<noteq> None)
                      (py_iter auths) of
                 None \<Rightarrow> (None, None)
               | Some auth \<Rightarrow> (challenge_param wwwauth_client_id_matcher auth,
                              challenge_param wwwauth_tenant_id_matcher auth)))
   \<and> (helper_pairs ''protocol'' \<noteq> None \<and> helper_pairs ''host'' \<noteq> None
      \<and> helper_pairs ''wwwauth'' = Some auths
      \<and> (\<forall>auth\<in>set (py_iter auths). prefix ''Bearer'' auth \<longrightarrow> spec_bearer_shape auth)
     \<longrightarrow> extract_entra_ids_from_wwwauth helper_pairs =
          Inr (case find (\<lambda>auth. spec_bearer_shape auth
                            \<and> challenge_param wwwauth_client_id_matcher auth \<noteq> None
                            \<and> challenge_param wwwauth_tenant_id_matcher auth \<noteq> None)
                      (py_iter auths) of
                 None \<Rightarrow> (None, None)
               | Some auth \<Rightarrow> (challenge_param wwwauth_client_id_matcher auth,
                              challenge_param wwwauth_tenant_id_matcher auth)))"
proof (intro conjI impI)
  assume a: "(k = ''msal-client-id'' \<or> k = ''msal-tenant-id'')
      \<and> CHR 0x0A \<notin> set pre \<and> CHR 0x22 \<notin> set v \<and> CHR 0x0A \<notin> set v
      \<and> \<not> py_str_contains (k @ ''='') (v @ ''\"'' @ post)"
  then have k: "k = ''msal-client-id'' \<or> k = ''msal-tenant-id''" by simp
  from a k have "\<not> py_str_contains (k @ ''='') (''\"'' @ v @ ''\"'' @ post)" by auto
  from key_once [OF k this] have once: "\<not> py_str_contains (k @ ''='') (tl (k @ ''=\"'' @ v @ ''\"'' @ post))"
    by simp
  from a value_quoted [of v "length pre + length k" post "[None, None, None]"]
  have "\<exists>others. rx_run wwwauth_param_value (length pre + length k, ''=\"'' @ v @ ''\"'' @ post, [None, None, None])
      = (length pre + length k + length v + 3, post, [None, None, None][0 := Some v]) # others"
    by simp
  from param_shape [OF _ _ once this] a k
  show "challenge_param (wwwauth_param_matcher k) (pre @ k @ ''=\"'' @ v @ ''\"'' @ post) = Some v"
    by auto
next
  assume a: "(k = ''msal-client-id'' \<or> k = ''msal-tenant-id'')
      \<and> CHR 0x0A \<notin> set pre \<and> \<not> prefix ''\"'' v \<and> CHR '','' \<notin> set v \<and> CHR 0x0A \<notin> set v
      \<and> \<not> py_str_contains (k @ ''='') (v @ '','' @ post)"
  then have k: "k = ''msal-client-id'' \<or> k = ''msal-tenant-id''" by simp
  from a have "\<not> py_str_contains (k @ ''='') (v @ '','' @ post)" by simp
  from key_once [OF k this] have once: "\<not> py_str_contains (k @ ''='') (tl (k @ ''='' @ v @ '','' @ post))" .
  from a value_comma [of v "length pre + length k" post "[None, None, None]"]
  have "\<exists>others. rx_run wwwauth_param_value (length pre + length k, ''='' @ v @ '','' @ post, [None, None, None])
      = (length pre + length k + length v + 2, post, [None, None, None][1 := Some v]) # others"
    by simp
  from param_shape [OF _ _ once this] a k
  show "challenge_param (wwwauth_param_matcher k) (pre @ k @ ''='' @ v @ '','' @ post) = Some v"
    by auto
next
  assume a: "(k = ''msal-client-id'' \<or> k = ''msal-tenant-id'')
      \<and> CHR 0x0A \<notin> set pre \<and> \<not> prefix ''\"'' v \<and> CHR '','' \<notin> set v \<and> CHR 0x0A \<notin> set v
      \<and> \<not> py_str_contains (k @ ''='') v"
  then have k: "k = ''msal-client-id'' \<or> k = ''msal-tenant-id''" by simp
  from a have "\<not> py_str_contains (k @ ''='') v" by simp
  from key_once [OF k this] have once: "\<not> py_str_contains (k @ ''='') (tl (k @ ''='' @ v))" .
  from a value_end [of v "length pre + length k" "[None, None, None]"]
  have "\<exists>others. rx_run wwwauth_param_value (length pre + length k, ''='' @ v, [None, None, None])
      = (length pre + length k + length v + 1, [], [None, None, None][2 := Some v]) # others"
    by simp
  from param_shape [OF _ _ once this] a k
  show "challenge_param (wwwauth_param_matcher k) (pre @ k @ ''='' @ v) = Some v"
    by auto
next
  assume "\<not> py_str_contains (k @ ''='') auth"
  then show "challenge_param (wwwauth_param_matcher k) auth = None"
    by (simp add: challenge_param_def re_match_def greedy_none)
next
  assume "helper_pairs ''protocol'' \<noteq> None \<and> helper_pairs ''host'' \<noteq> None
      \<and> helper_pairs ''wwwauth'' = Some auths"
  then show "extract_entra_ids_from_wwwauth helper_pairs =
          Inr (case find (\<lambda>auth. prefix ''Bearer'' auth
                            \<and> challenge_param wwwauth_client_id_matcher auth \<noteq> None
                            \<and> challenge_param wwwauth_tenant_id_matcher auth \<noteq> None)
                      (py_iter auths) of
                 None \<Rightarrow> (None, None)
               | Some auth \<Rightarrow> (challenge_param wwwauth_client_id_matcher auth,
                              challenge_param wwwauth_tenant_id_matcher auth))"
    by (auto simp add: extract_entra_ids_from_wwwauth_def py_getitem_def wwwauth_loop_find
        challenge_yields_both_prefix)
next
  assume a: "helper_pairs ''protocol'' \<noteq> None \<and> helper_pairs ''host'' \<noteq> None
      \<and> helper_pairs ''wwwauth'' = Some auths
      \<and> (\<forall>auth\<in>set (py_iter auths). prefix ''Bearer'' auth \<longrightarrow> spec_bearer_shape auth)"
  then have "find (\<lambda>auth. spec_bearer_shape auth
                            \<and> challenge_param wwwauth_client_id_matcher auth \<noteq> None
                            \<and> challenge_param wwwauth_tenant_id_matcher auth \<noteq> None)
                (py_iter auths)
      = find challenge_yields_both (py_iter auths)"
    by (intro find_cong) (auto simp add: challenge_yields_both_prefix spec_bearer_shape_prefix)
  with a show "extract_entra_ids_from_wwwauth helper_pairs =
          Inr (case find (\<lambda>auth. spec_bearer_shape auth
                            \<and> challenge_param wwwauth_client_id_matcher auth \<noteq> None
                            \<and> challenge_param wwwauth_tenant_id_matcher auth \<noteq> None)
                      (py_iter auths) of
                 None \<Rightarrow> (None, None)
               | Some auth \<Rightarrow> (challenge_param wwwauth_client_id_matcher auth,
                              challenge_param wwwauth_tenant_id_matcher auth))"
    by (auto simp add: extract_entra_ids_from_wwwauth_def py_getitem_def wwwauth_loop_find)
qed

text \<open>
  A quoted and a comma- and end-terminated challenge; a request whose third challenge
  is the first to give both parameters; and a request whose first challenge,
  \<^verbatim>\<open>Bearerx ...\<close>, has not the bearer shape and still gives the result, before the
  bearer challenge that follows it.
\<close>

theorem wwwauth_challenge_extraction_witness:
  "challenge_param wwwauth_client_id_matcher ''Bearer msal-client-id=\"C\" msal-tenant-id=\"T\"'' = Some ''C''
   \<and> challenge_param wwwauth_tenant_id_matcher ''Bearer msal-client-id=\"C\" msal-tenant-id=\"T\"'' = Some ''T''
   \<and> challenge_param wwwauth_client_id_matcher ''Bearer msal-client-id=C2, msal-tenant-id=T2'' = Some ''C2''
   \<and> challenge_param wwwauth_tenant_id_matcher ''Bearer msal-client-id=C2, msal-tenant-id=T2'' = Some ''T2''
   \<and> challenge_param wwwauth_tenant_id_matcher ''Bearer msal-client-id=only'' = None
   \<and> extract_entra_ids_from_wwwauth
        [''protocol'' \<mapsto> Str ''https'', ''host'' \<mapsto> Str ''dev.azure.com'',
         ''wwwauth'' \<mapsto> Lst [''Basic realm=\"x\"'', ''Bearer msal-client-id=only'',
                              ''Bearer msal-client-id=\"C\" msal-tenant-id=\"T\"'',
                              ''Bearer msal-client-id=C2, msal-tenant-id=T2'']]
       = Inr (Some ''C'', Some ''T'')
   \<and> \<not> spec_bearer_shape ''Bearerx msal-client-id=\"X\" msal-tenant-id=\"Y\"''
   \<and> spec_bearer_shape ''Bearer msal-client-id=\"C\" msal-tenant-id=\"T\"''
   \<and> extract_entra_ids_from_wwwauth
        [''protocol'' \<mapsto> Str ''https'', ''host'' \<mapsto> Str ''dev.azure.com'',
         ''wwwauth'' \<mapsto> Lst [''Bearerx msal-client-id=\"X\" msal-tenant-id=\"Y\"'',
                              ''Bearer msal-client-id=\"C\" msal-tenant-id=\"T\"'']]
       = Inr (Some ''X'', Some ''Y'')"
proof -
  let ?q = "''Bearer msal-client-id=\"C\" msal-tenant-id=\"T\"''"
  let ?u = "''Bearer msal-client-id=C2, msal-tenant-id=T2''"
  let ?x = "''Bearerx msal-client-id=\"X\" msal-tenant-id=\"Y\"''"
  let ?hp = "[''protocol'' \<mapsto> Str ''https'', ''host'' \<mapsto> Str ''dev.azure.com'',
         ''wwwauth'' \<mapsto> Lst [''Basic realm=\"x\"'', ''Bearer msal-client-id=only'', ?q, ?u]]"
  let ?hx = "[''protocol'' \<mapsto> Str ''https'', ''host'' \<mapsto> Str ''dev.azure.com'',
         ''wwwauth'' \<mapsto> Lst [?x, ?q]]"
  have 1: "challenge_param wwwauth_client_id_matcher ?q = Some ''C''"
    using wwwauth_challenge_extraction [of "''msal-client-id''" "''Bearer ''" "''C''" "'' msal-tenant-id=\"T\"''"]
    by (simp add: wwwauth_client_id_matcher_def)
  have 2: "challenge_param wwwauth_tenant_id_matcher ?q = Some ''T''"
    using wwwauth_challenge_extraction [of "''msal-tenant-id''" "''Bearer msal-client-id=\"C\" ''" "''T''" "[]"]
    by (simp add: wwwauth_tenant_id_matcher_def)
  have 3: "challenge_param wwwauth_client_id_matcher ?u = Some ''C2''"
    using wwwauth_challenge_extraction [of "''msal-client-id''" "''Bearer ''" "''C2''" "'' msal-tenant-id=T2''"]
    by (simp add: wwwauth_client_id_matcher_def)
  have 4: "challenge_param wwwauth_tenant_id_matcher ?u = Some ''T2''"
    using wwwauth_challenge_extraction [of "''msal-tenant-id''" "''Bearer msal-client-id=C2, ''" "''T2''" "[]"]
    by (simp add: wwwauth_tenant_id_matcher_def)
  have 5: "challenge_param wwwauth_tenant_id_matcher ''Bearer msal-client-id=only'' = None"
    using wwwauth_challenge_extraction [of "''msal-tenant-id''" _ _ _ "''Bearer msal-client-id=only''"]
    by (simp add: wwwauth_tenant_id_matcher_def)
  have 6: "challenge_param wwwauth_client_id_matcher ?x = Some ''X''"
    using wwwauth_challenge_extraction [of "''msal-client-id''" "''Bearerx ''" "''X''" "'' msal-tenant-id=\"Y\"''"]
    by (simp add: wwwauth_client_id_matcher_def)
  have 7: "challenge_param wwwauth_tenant_id_matcher ?x = Some ''Y''"
    using wwwauth_challenge_extraction [of "''msal-tenant-id''" "''Bearerx msal-client-id=\"X\" ''" "''Y''" "[]"]
    by (simp add: wwwauth_tenant_id_matcher_def)
  have a: "extract_entra_ids_from_wwwauth ?hp = Inr (Some ''C'', Some ''T'')"
    using wwwauth_challenge_extraction
        [of _ _ _ _ _ ?hp "Lst [''Basic realm=\"x\"'', ''Bearer msal-client-id=only'', ?q, ?u]"]
      1 2 5
    by simp
  have b: "extract_entra_ids_from_wwwauth ?hx = Inr (Some ''X'', Some ''Y'')"
    using wwwauth_challenge_extraction [of _ _ _ _ _ ?hx "Lst [?x, ?q]"] 6 7
    by simp
  have c: "\<not> spec_bearer_shape ?x" "spec_bearer_shape ?q"
    by (simp_all add: spec_bearer_shape_def py_isspace_def)
  from 1 2 3 4 5 a b c show ?thesis by simp
qed

end
